theory Spec2Isabelle
  imports Main "HOL-Library.Sublist"
begin

section \<open>LabStatus: the event handler, the command loop and the month directories\<close>

text \<open>
  A shallow embedding of \<^verbatim>\<open>LabStatus.py\<close>. The handler's class attributes
  (\<^verbatim>\<open>recent_events\<close>, \<^verbatim>\<open>_q_cnt\<close>, \<^verbatim>\<open>_v_cnt\<close>) and the console form the state;
  every method takes the state and returns the new one. What the program asks of the
  operating system and of its libraries (login name, file sizes, directories, the clock,
  the colour codes of colorama, \<^verbatim>\<open>os.path.splitext\<close>, the pattern filter of watchdog,
  and what \<^verbatim>\<open>str.lower\<close>, \<^verbatim>\<open>str.isdigit\<close> and \<^verbatim>\<open>int\<close> do to a character) is a
  parameter, the record \<open>env\<close>. The two locks and \<^verbatim>\<open>time.sleep\<close> have no counterpart:
  the model handles one event or one command line at a time.
\<close>

subsection \<open>Python's string operations\<close>

text \<open>
  Strings are lists of characters. The operations whose result is the same for every
  alphabet are defined here; \<^verbatim>\<open>str.lower\<close>, \<^verbatim>\<open>str.isdigit\<close> and \<^verbatim>\<open>int\<close>, which
  depend on the Unicode tables, are fields of \<open>env\<close>.
\<close>

definition backslash :: char where
  "backslash = CHR 0x5C"

definition newline :: char where
  "newline = CHR 0x0A"

text \<open>\<^verbatim>\<open>sub in s\<close> on strings: \<open>sub\<close> occurs in \<open>s\<close> as a contiguous run.\<close>

fun str_in :: "string \<Rightarrow> string \<Rightarrow> bool" where
  "str_in sub [] = (sub = [])"
| "str_in sub (c # cs) = (prefix sub (c # cs) \<or> str_in sub cs)"

text \<open>\<^verbatim>\<open>str(n)\<close> for an integer.\<close>

fun str_nat :: "nat \<Rightarrow> string" where
  "str_nat n =
     (if n < 10 then [''0123456789'' ! n]
      else str_nat (n div 10) @ [''0123456789'' ! (n mod 10)])"

definition str_int :: "int \<Rightarrow> string" where
  "str_int i = (if i < 0 then ''-'' @ str_nat (nat (- i)) else str_nat (nat i))"

text \<open>\<^verbatim>\<open>s.ljust(width, fill)\<close>.\<close>

definition ljust :: "nat \<Rightarrow> char \<Rightarrow> string \<Rightarrow> string" where
  "ljust width fill s = s @ replicate (width - length s) fill"

text \<open>\<^verbatim>\<open>s.split(sep)\<close> for a separator of one character; the result is never empty.\<close>

fun split_chr :: "char \<Rightarrow> string \<Rightarrow> string list" where
  "split_chr sep [] = [[]]"
| "split_chr sep (c # cs) =
     (if c = sep then [] # split_chr sep cs
      else (case split_chr sep cs of
              [] \<Rightarrow> [[c]]
            | w # ws \<Rightarrow> (c # w) # ws))"

subsection \<open>The environment and the state\<close>

record colorama =
  Fore_CYAN :: string
  Fore_MAGENTA :: string
  Fore_GREEN :: string
  Fore_RED :: string
  Style_BRIGHT :: string
  Style_NORMAL :: string
  Style_RESET_ALL :: string

text \<open>A calendar date, as \<^verbatim>\<open>datetime.date\<close> holds it.\<close>

record date =
  year :: nat
  month :: nat
  day :: nat

datatype event_type = Modified | Created | Moved | Deleted

record event =
  event_type :: event_type
  is_directory :: bool
  src_path :: string

text \<open>The exceptions that leave a function of the program.\<close>

datatype error = ValueError | FileNotFoundError

text \<open>
  \<open>os_stat_size p\<close> is \<open>Inr n\<close> when \<^verbatim>\<open>os.stat(p).st_size\<close> is \<open>n\<close>, and \<open>Inl msg\<close> when
  \<^verbatim>\<open>os.stat\<close> raises \<^verbatim>\<open>OSError\<close> (\<^verbatim>\<open>FileNotFoundError\<close> is one) whose text is \<open>msg\<close>.
  \<open>strftime_now\<close> is \<^verbatim>\<open>time.strftime("%d.%m.%y %H:%M ", time.localtime())\<close>, read once
  for the event at hand. \<open>today\<close> is \<^verbatim>\<open>datetime.date.today()\<close> and \<open>os_path_isdir\<close> is
  \<^verbatim>\<open>os.path.isdir\<close> at the time of the call. \<open>str_lower\<close> is \<^verbatim>\<open>str.lower\<close>,
  \<open>str_isdigit c\<close> is \<^verbatim>\<open>c.isdigit()\<close> for one character, and \<open>int_of c\<close> is \<^verbatim>\<open>int(c)\<close>:
  \<open>Inr n\<close> when it returns \<open>n\<close>, \<open>Inl ValueError\<close> when it raises, as it does for a
  character such as superscript two that \<^verbatim>\<open>isdigit\<close> accepts and that is not a decimal
  digit. \<open>match_patterns ev\<close> is the test of \<^verbatim>\<open>PatternMatchingEventHandler.dispatch\<close>:
  the paths of the event against \<^verbatim>\<open>patterns\<close>.
\<close>

record env =
  colours :: colorama
  os_getlogin :: string
  os_stat_size :: "string \<Rightarrow> string + nat"
  os_path_splitext :: "string \<Rightarrow> string \<times> string"
  os_path_isdir :: "string \<Rightarrow> bool"
  strftime_now :: string
  today :: date
  str_lower :: "string \<Rightarrow> string"
  str_isdigit :: "char \<Rightarrow> bool"
  int_of :: "char \<Rightarrow> error + int"
  match_patterns :: "event \<Rightarrow> bool"

text \<open>What the program does to the outside: a printed line, a flash of the console
  window, a directory made.\<close>

datatype effect = Print string | FlashWindow | Makedirs string

record state =
  recent_events :: "string list"
  q_cnt_field :: int
  v_cnt_field :: int
  console :: "effect list"

text \<open>\<^verbatim>\<open>deque.append\<close> on a deque bounded by \<open>maxlen\<close>: a full deque drops from the left.\<close>

definition deque_append :: "nat \<Rightarrow> 'a list \<Rightarrow> 'a \<Rightarrow> 'a list" where
  "deque_append maxlen d x = (let d' = d @ [x] in drop (length d' - maxlen) d')"

definition recent_maxlen :: nat where
  "recent_maxlen = 30"

text \<open>\<open>p\<close> is among the last \<open>k\<close> entries of \<open>l\<close>.\<close>

definition among_last :: "nat \<Rightarrow> 'a \<Rightarrow> 'a list \<Rightarrow> bool" where
  "among_last k p l = (p \<in> set (drop (length l - k) l))"

text \<open>The handler as the class body leaves it: \<^verbatim>\<open>deque('ghi', maxlen=30)\<close>, both counters 0.\<close>

definition LabHandler_init :: state where
  "LabHandler_init =
     \<lparr>recent_events = [''g'', ''h'', ''i''], q_cnt_field = 0, v_cnt_field = 0, console = []\<rparr>"

definition print :: "string \<Rightarrow> state \<Rightarrow> state" where
  "print line s = s\<lparr>console := console s @ [Print line]\<rparr>"

definition viia7_str :: "env \<Rightarrow> string" where
  "viia7_str E = Fore_CYAN (colours E) @ ''Viia7'' @ Style_RESET_ALL (colours E) @ '':  ''"

definition qiaxcel_str :: "env \<Rightarrow> string" where
  "qiaxcel_str E = Fore_MAGENTA (colours E) @ ''Qiaxcel'' @ Style_RESET_ALL (colours E) @ '':''"

subsection \<open>The handler\<close>

definition file_name :: "env \<Rightarrow> string \<Rightarrow> string" where
  "file_name E path = last (split_chr backslash (fst (os_path_splitext E path)))"

definition get_event_info :: "env \<Rightarrow> event \<Rightarrow> string \<times> string" where
  "get_event_info E ev =
     (let machine = (if event_type ev = Modified then viia7_str E else qiaxcel_str E);
          file = file_name E (src_path ev)
      in (machine, file))"

definition bright_time :: "env \<Rightarrow> string" where
  "bright_time E = Style_BRIGHT (colours E) @ strftime_now E @ Style_NORMAL (colours E)"

text \<open>The test of line 53: login name in the lowered path, or counter 1, or counter above 9.\<close>

definition distinguished :: "env \<Rightarrow> event \<Rightarrow> int \<Rightarrow> bool" where
  "distinguished E ev x_cnt =
     (str_in (os_getlogin E) (str_lower E (src_path ev)) \<or> x_cnt = 1 \<or> x_cnt > 9)"

definition distinguished_message :: "env \<Rightarrow> event \<Rightarrow> string" where
  "distinguished_message E ev =
     (let (machine, file) = get_event_info E ev;
          file = Fore_GREEN (colours E) @ file @ Style_RESET_ALL (colours E)
      in Fore_GREEN (colours E) @ ljust 21 CHR '' '' (''>>> '' @ machine)
           @ '' '' @ file @ '' has finished!'')"

definition normal_message :: "env \<Rightarrow> event \<Rightarrow> string" where
  "normal_message E ev =
     (let (machine, file) = get_event_info E ev;
          file = Style_BRIGHT (colours E) @ file @ Style_RESET_ALL (colours E)
      in ljust 21 CHR '' '' ('' -  '' @ machine) @ '' '' @ file @ '' has finished.'')"

definition no_longer_line :: "env \<Rightarrow> event \<Rightarrow> string" where
  "no_longer_line E ev =
     ljust 19 CHR '' '' [] @ fst (get_event_info E ev) @ '' No longer notifying.''"

definition notif :: "env \<Rightarrow> state \<Rightarrow> event \<Rightarrow> int \<Rightarrow> state \<times> int" where
  "notif E s ev x_cnt =
     (let s1 = s\<lparr>recent_events := deque_append recent_maxlen (recent_events s) (src_path ev)\<rparr>;
          s2 = (if distinguished E ev x_cnt
                then print (bright_time E @ distinguished_message E ev)
                       (s1\<lparr>console := console s1 @ [FlashWindow]\<rparr>)
                else print (bright_time E @ normal_message E ev) s1);
          s3 = (if x_cnt = 1 then print (no_longer_line E ev) s2 else s2)
      in (s3, x_cnt - 1))"

definition notify_setting :: "string \<Rightarrow> int \<Rightarrow> string option" where
  "notify_setting machine x_cnt =
     (if 0 < x_cnt \<and> x_cnt < 10
      then Some (ljust 19 CHR '' '' [] @ machine @ '' Notifying in '' @ str_int x_cnt @ '' runs time'')
      else if x_cnt > 9
      then Some (ljust 19 CHR '' '' [] @ machine @ '' Notifying for all runs'')
      else if x_cnt < 1
      then Some (ljust 19 CHR '' '' [] @ machine @ '' Notify OFF'')
      else None)"

definition q_cnt :: "env \<Rightarrow> state \<Rightarrow> string option" where
  "q_cnt E s = notify_setting (qiaxcel_str E) (q_cnt_field s)"

definition q_cnt_setter :: "state \<Rightarrow> int \<Rightarrow> state" where
  "q_cnt_setter s x =
     (if x = 0 then s\<lparr>q_cnt_field := (if q_cnt_field s > 0 then 0 else 1337)\<rparr>
      else s\<lparr>q_cnt_field := x\<rparr>)"

definition v_cnt :: "env \<Rightarrow> state \<Rightarrow> string option" where
  "v_cnt E s = notify_setting (viia7_str E) (v_cnt_field s)"

definition v_cnt_setter :: "state \<Rightarrow> int \<Rightarrow> state" where
  "v_cnt_setter s x =
     (if x = 0 then s\<lparr>v_cnt_field := (if v_cnt_field s > 0 then 0 else 1337)\<rparr>
      else s\<lparr>v_cnt_field := x\<rparr>)"

text \<open>\<^verbatim>\<open>is_large_enough\<close>: the size test, and on \<^verbatim>\<open>OSError\<close> two printed lines and True.\<close>

definition is_large_enough :: "env \<Rightarrow> state \<Rightarrow> string \<Rightarrow> state \<times> bool" where
  "is_large_enough E s path =
     (case os_stat_size E path of
        Inr st_size \<Rightarrow> (s, st_size > 1300000)
      | Inl e \<Rightarrow>
          (let file = file_name E path;
               s1 = print (Fore_RED (colours E) @ '' '' @ e @ '' '' @ Style_RESET_ALL (colours E)) s;
               s2 = print (bright_time E @ ljust 21 CHR '' '' ('' -  '' @ viia7_str E) @ file
                            @ '' wasn't saved properly!''
                            @ '' You'll need to analyse and save the run again from the machine.'') s1
           in (s2, True)))"

definition on_modified :: "env \<Rightarrow> state \<Rightarrow> event \<Rightarrow> state" where
  "on_modified E s ev =
     (if str_in ''.eds'' (src_path ev) \<and> src_path ev \<notin> set (recent_events s)
      then (case is_large_enough E s (src_path ev) of
              (s1, True) \<Rightarrow>
                (case notif E s1 ev (v_cnt_field s1) of (s2, c) \<Rightarrow> s2\<lparr>v_cnt_field := c\<rparr>)
            | (s1, False) \<Rightarrow> s1)
      else s)"

definition on_created :: "env \<Rightarrow> state \<Rightarrow> event \<Rightarrow> state" where
  "on_created E s ev =
     (if str_in ''.xdrx'' (src_path ev) \<and> src_path ev \<notin> set (recent_events s)
      then (case notif E s ev (q_cnt_field s) of (s1, c) \<Rightarrow> s1\<lparr>q_cnt_field := c\<rparr>)
      else s)"

text \<open>The inherited \<^verbatim>\<open>dispatch\<close>: an event whose paths match \<^verbatim>\<open>patterns\<close> goes to the
  method named after its kind; the handler defines none for moved and deleted events.\<close>

definition dispatch :: "env \<Rightarrow> state \<Rightarrow> event \<Rightarrow> state" where
  "dispatch E s ev =
     (if match_patterns E ev
      then (case event_type ev of
              Modified \<Rightarrow> on_modified E s ev
            | Created \<Rightarrow> on_created E s ev
            | Moved \<Rightarrow> s
            | Deleted \<Rightarrow> s)
      else s)"

text \<open>A run of renders for one source, the counter handed from each to the next.\<close>

fun notif_run :: "env \<Rightarrow> state \<Rightarrow> int \<Rightarrow> event list \<Rightarrow> state \<times> int" where
  "notif_run E s x_cnt [] = (s, x_cnt)"
| "notif_run E s x_cnt (ev # evs) =
     (case notif E s ev x_cnt of (s1, c) \<Rightarrow> notif_run E s1 c evs)"

text \<open>The observer delivering events one after another, each in the environment of its
  time.\<close>

fun dispatch_all :: "state \<Rightarrow> (env \<times> event) list \<Rightarrow> state" where
  "dispatch_all s [] = s"
| "dispatch_all s ((E, ev) # rest) = dispatch_all (dispatch E s ev) rest"

text \<open>The same for events that all reach one method of the handler, \<open>on_created\<close> or
  \<open>on_modified\<close>.\<close>

fun handle_all ::
  "(env \<Rightarrow> state \<Rightarrow> event \<Rightarrow> state) \<Rightarrow> state \<Rightarrow> (env \<times> event) list \<Rightarrow> state" where
  "handle_all h s [] = s"
| "handle_all h s ((E, ev) # rest) = handle_all h (h E s ev) rest"

text \<open>What \<open>is_large_enough\<close> prints for a path, and whether it answers True.\<close>

definition size_warning :: "env \<Rightarrow> string \<Rightarrow> effect list" where
  "size_warning E path =
     (case os_stat_size E path of
        Inr st_size \<Rightarrow> []
      | Inl e \<Rightarrow>
          [Print (Fore_RED (colours E) @ '' '' @ e @ '' '' @ Style_RESET_ALL (colours E)),
           Print (bright_time E @ ljust 21 CHR '' '' ('' -  '' @ viia7_str E) @ file_name E path
                  @ '' wasn't saved properly!''
                  @ '' You'll need to analyse and save the run again from the machine.'')])"

definition accepted :: "env \<Rightarrow> string \<Rightarrow> bool" where
  "accepted E path =
     (case os_stat_size E path of
        Inr st_size \<Rightarrow> st_size > 1300000
      | Inl e \<Rightarrow> True)"

text \<open>What one render prints and does to the window, for the counter it is given.\<close>

definition render_effects :: "env \<Rightarrow> event \<Rightarrow> int \<Rightarrow> effect list" where
  "render_effects E ev c =
     (if distinguished E ev c
      then [FlashWindow, Print (bright_time E @ distinguished_message E ev)]
      else [Print (bright_time E @ normal_message E ev)])
     @ (if c = 1 then [Print (no_longer_line E ev)] else [])"

subsection \<open>The command loop\<close>

text \<open>The \<^verbatim>\<open>for\<close>/\<^verbatim>\<open>else\<close> of \<^verbatim>\<open>get_input\<close>: \<^verbatim>\<open>int\<close> of the first character of the
  line that \<^verbatim>\<open>isdigit\<close> accepts, which may raise, or 0 when the line has none.\<close>

fun first_digit :: "env \<Rightarrow> string \<Rightarrow> error + int" where
  "first_digit E [] = Inr 0"
| "first_digit E (c # cs) = (if str_isdigit E c then int_of E c else first_digit E cs)"

definition help_text1 :: string where
  "help_text1 =
     ''Monitors Qiaxcel and Viia7 for file events and prints a notification.'' @ [newline]
     @ ''Files with your username in the path will generate a distinguished notification.''
     @ [newline]
     @ ''Commands may be given to notify you on other events, e.g. All runs or in n run's time.''
     @ [newline]"

definition help_text2 :: string where
  "help_text2 =
     ''Commands - q (Qiaxcel), v (Viia7) and a single digit or some combination.'' @ [newline]
     @ ''Any digit after the first is ignored. e.g: q, q5, v4, qv3. q54 == q5.'' @ [newline]
     @ ''No number will toggle notifications on all events, a number will notify after n events.''
     @ [newline]"

text \<open>\<^verbatim>\<open>print(x)\<close> of a value that is a string or \<^verbatim>\<open>None\<close>.\<close>

definition print_opt :: "string option \<Rightarrow> state \<Rightarrow> state" where
  "print_opt x s = print (case x of Some line \<Rightarrow> line | None \<Rightarrow> ''None'') s"

text \<open>One turn of the loop of \<^verbatim>\<open>get_input\<close>, for the line \<open>inp\<close>: the state it leaves, and
  the exception that leaves it, if any.\<close>

definition command :: "env \<Rightarrow> state \<Rightarrow> string \<Rightarrow> state \<times> error option" where
  "command E s inp =
     (let s0 = (if inp = ''help'' then print help_text2 (print help_text1 s) else s)
      in case first_digit E inp of
           Inl e \<Rightarrow> (s0, Some e)
         | Inr count \<Rightarrow>
             (let s1 = (if str_in ''q'' (str_lower E inp)
                        then (let t = q_cnt_setter s0 count in print_opt (q_cnt E t) t)
                        else s0);
                  s2 = (if str_in ''v'' (str_lower E inp)
                        then (let t = v_cnt_setter s1 count in print_opt (v_cnt E t) t)
                        else s1)
              in (s2, None)))"

text \<open>The loop reads lines until the input ends (\<^verbatim>\<open>EOFError\<close>, which it catches), then
  returns. No other exception is caught: a \<^verbatim>\<open>ValueError\<close> ends the loop, and the lines
  after it are not read.\<close>

fun get_input :: "env \<Rightarrow> state \<Rightarrow> string list \<Rightarrow> state \<times> error option" where
  "get_input E s [] = (s, None)"
| "get_input E s (inp # inputs) =
     (case command E s inp of
        (s1, Some e) \<Rightarrow> (s1, Some e)
      | (s1, None) \<Rightarrow> get_input E s1 inputs)"

subsection \<open>The month directories\<close>

definition is_leap :: "nat \<Rightarrow> bool" where
  "is_leap y = (y mod 4 = 0 \<and> (y mod 100 \<noteq> 0 \<or> y mod 400 = 0))"

definition days_in_month :: "nat \<Rightarrow> nat \<Rightarrow> nat" where
  "days_in_month y m =
     (if m = 2 then (if is_leap y then 29 else 28)
      else if m \<in> {4, 6, 9, 11} then 30 else 31)"

text \<open>\<^verbatim>\<open>d - datetime.timedelta(days=1)\<close>, for a date after 1 January of the year 1.\<close>

definition minus_one_day :: "date \<Rightarrow> date" where
  "minus_one_day d =
     (if day d > 1 then d\<lparr>day := day d - 1\<rparr>
      else if month d > 1
      then d\<lparr>month := month d - 1, day := days_in_month (year d) (month d - 1)\<rparr>
      else \<lparr>year = year d - 1, month = 12, day = 31\<rparr>)"

text \<open>\<^verbatim>\<open>strftime\<close> with \<^verbatim>\<open>%b\<close>, \<^verbatim>\<open>%B\<close> and \<^verbatim>\<open>%Y\<close>, in the English locale that the
  comparison with \<^verbatim>\<open>'Sep'\<close> supposes.\<close>

definition strftime_b :: "date \<Rightarrow> string" where
  "strftime_b d =
     (if 1 \<le> month d \<and> month d \<le> 12
      then [''Jan'', ''Feb'', ''Mar'', ''Apr'', ''May'', ''Jun'',
            ''Jul'', ''Aug'', ''Sep'', ''Oct'', ''Nov'', ''Dec''] ! (month d - 1)
      else [])"

definition strftime_B :: "date \<Rightarrow> string" where
  "strftime_B d =
     (if 1 \<le> month d \<and> month d \<le> 12
      then [''January'', ''February'', ''March'', ''April'', ''May'', ''June'', ''July'',
            ''August'', ''September'', ''October'', ''November'', ''December''] ! (month d - 1)
      else [])"

text \<open>The year in decimal, as \<^verbatim>\<open>%Y\<close> prints a year of four digits.\<close>

definition strftime_Y :: "date \<Rightarrow> string" where
  "strftime_Y d = str_nat (year d)"

definition build_path :: "string \<Rightarrow> string \<Rightarrow> string" where
  "build_path month_name year_str =
     [backslash, backslash] @ ''File01-s0'' @ [backslash] @ ''Team121'' @ [backslash]
     @ ''Genotyping'' @ [backslash] @ ''qPCR '' @ year_str @ [backslash] @ ''Experiments''
     @ [backslash] @ month_name @ '' '' @ year_str"

text \<open>\<^verbatim>\<open>viia7_path(last)\<close>: what it does to the outside, and the path it returns or the
  exception it raises.\<close>

definition viia7_path :: "env \<Rightarrow> bool \<Rightarrow> effect list \<times> (error + string)" where
  "viia7_path E last_arg =
     (let makedirs = \<not> last_arg;
          date = (if last_arg then minus_one_day ((today E)\<lparr>day := 1\<rparr>) else today E);
          month_str = strftime_b date;
          year_str = strftime_Y date;
          path = build_path month_str year_str
      in if os_path_isdir E path then ([], Inr path)
         else (let month_full = strftime_B date;
                   path2 = build_path month_full year_str
               in if os_path_isdir E path2 then ([], Inr path2)
                  else if month_str = ''Sep'' \<and> os_path_isdir E (build_path ''Sept'' year_str)
                  then ([], Inr (build_path ''Sept'' year_str))
                  else if makedirs then ([Makedirs path], Inr path)
                  else ([Print ''Cant find last month's Viia7 Path''], Inl FileNotFoundError)))"

text \<open>The date whose month \<^verbatim>\<open>viia7_path(last=True)\<close> resolves: the day before the first
  of this month.\<close>

definition last_month :: "env \<Rightarrow> date" where
  "last_month E = minus_one_day ((today E)\<lparr>day := 1\<rparr>)"

subsection \<open>Example inputs\<close>

definition demo_colours :: colorama where
  "demo_colours =
     \<lparr>Fore_CYAN = CHR 0x1B # ''[36m'', Fore_MAGENTA = CHR 0x1B # ''[35m'',
      Fore_GREEN = CHR 0x1B # ''[32m'', Fore_RED = CHR 0x1B # ''[31m'',
      Style_BRIGHT = CHR 0x1B # ''[1m'', Style_NORMAL = CHR 0x1B # ''[22m'',
      Style_RESET_ALL = CHR 0x1B # ''[0m''\<rparr>"

text \<open>
  The library functions on the characters of Latin-1. \<^verbatim>\<open>str.lower\<close> folds A to Z and the
  accented capitals; \<^verbatim>\<open>str.isdigit\<close> accepts 0 to 9 and the superscripts one, two and
  three; \<^verbatim>\<open>int\<close> converts 0 to 9 and raises \<^verbatim>\<open>ValueError\<close> on the superscripts.
\<close>

definition latin1_upper :: string where
  "latin1_upper =
     ''ABCDEFGHIJKLMNOPQRSTUVWXYZ''
     @ [CHR 0xC0, CHR 0xC1, CHR 0xC2, CHR 0xC3, CHR 0xC4, CHR 0xC5, CHR 0xC6, CHR 0xC7,
        CHR 0xC8, CHR 0xC9, CHR 0xCA, CHR 0xCB, CHR 0xCC, CHR 0xCD, CHR 0xCE, CHR 0xCF,
        CHR 0xD0, CHR 0xD1, CHR 0xD2, CHR 0xD3, CHR 0xD4, CHR 0xD5, CHR 0xD6,
        CHR 0xD8, CHR 0xD9, CHR 0xDA, CHR 0xDB, CHR 0xDC, CHR 0xDD, CHR 0xDE]"

definition latin1_lowered :: string where
  "latin1_lowered =
     ''abcdefghijklmnopqrstuvwxyz''
     @ [CHR 0xE0, CHR 0xE1, CHR 0xE2, CHR 0xE3, CHR 0xE4, CHR 0xE5, CHR 0xE6, CHR 0xE7,
        CHR 0xE8, CHR 0xE9, CHR 0xEA, CHR 0xEB, CHR 0xEC, CHR 0xED, CHR 0xEE, CHR 0xEF,
        CHR 0xF0, CHR 0xF1, CHR 0xF2, CHR 0xF3, CHR 0xF4, CHR 0xF5, CHR 0xF6,
        CHR 0xF8, CHR 0xF9, CHR 0xFA, CHR 0xFB, CHR 0xFC, CHR 0xFD, CHR 0xFE]"

definition latin1_lower :: "string \<Rightarrow> string" where
  "latin1_lower s =
     map (\<lambda>c. case map_of (zip latin1_upper latin1_lowered) c of Some l \<Rightarrow> l | None \<Rightarrow> c) s"

definition latin1_isdigit :: "char \<Rightarrow> bool" where
  "latin1_isdigit c = (c \<in> set (''0123456789'' @ [CHR 0xB2, CHR 0xB3, CHR 0xB9]))"

definition latin1_int :: "char \<Rightarrow> error + int" where
  "latin1_int c =
     (case map_of (zip ''0123456789'' [0, 1, 2, 3, 4, 5, 6, 7, 8, 9]) c of
        Some d \<Rightarrow> Inr d
      | None \<Rightarrow> Inl ValueError)"

text \<open>\<^verbatim>\<open>os.path.splitext\<close> of Windows: the extension starts at the last dot of the last
  component, unless only dots come before it there.\<close>

definition nt_splitext :: "string \<Rightarrow> string \<times> string" where
  "nt_splitext p =
     (let is_sep = (\<lambda>c. c = CHR 0x5C \<or> c = CHR ''/'');
          r = rev p;
          ext_rev = takeWhile (\<lambda>c. c \<noteq> CHR ''.'' \<and> \<not> is_sep c) r;
          rest = dropWhile (\<lambda>c. c \<noteq> CHR ''.'' \<and> \<not> is_sep c) r
      in case rest of
           [] \<Rightarrow> (p, [])
         | c # root_rev \<Rightarrow>
             if c = CHR ''.''
                \<and> filter (\<lambda>b. b \<noteq> CHR ''.'') (takeWhile (\<lambda>c. \<not> is_sep c) root_rev) \<noteq> []
             then (rev root_rev, CHR ''.'' # rev ext_rev)
             else (p, []))"

text \<open>A machine whose user is \<open>jon\<close>, on 15 October 2026, where \<^verbatim>\<open>big.eds\<close> has 2000000
  bytes, \<^verbatim>\<open>small.eds\<close> has 1000 and no other file can be read.\<close>

definition demo_env :: env where
  "demo_env =
     \<lparr>colours = demo_colours,
      os_getlogin = ''jon'',
      os_stat_size = (\<lambda>p. if p = ''big.eds'' then Inr 2000000
                          else if p = ''small.eds'' then Inr 1000
                          else Inl ''No such file''),
      os_path_splitext = nt_splitext,
      os_path_isdir = (\<lambda>p. False),
      strftime_now = ''15.10.26 09:30 '',
      today = \<lparr>year = 2026, month = 10, day = 15\<rparr>,
      str_lower = latin1_lower,
      str_isdigit = latin1_isdigit,
      int_of = latin1_int,
      match_patterns = (\<lambda>ev. suffix ''.xdrx'' (src_path ev) \<or> suffix ''.eds'' (src_path ev))\<rparr>"

definition demo_event :: "event_type \<Rightarrow> string \<Rightarrow> event" where
  "demo_event k p = \<lparr>event_type = k, is_directory = False, src_path = p\<rparr>"

definition demo_runs :: "event list" where
  "demo_runs = map (\<lambda>k. demo_event Created (replicate k CHR ''r'' @ ''.xdrx'')) [0..<31]"

definition demo_seen_state :: state where
  "demo_seen_state =
     LabHandler_init\<lparr>recent_events := deque_append recent_maxlen [''g'', ''h'', ''i''] ''a.xdrx''\<rparr>"

text \<open>The same machine once every file has 2000000 bytes; for a user \<open>Jon\<close>; and with the
  directory named \<^verbatim>\<open>Sept 2026\<close> in place.\<close>

definition demo_env_big :: env where
  "demo_env_big = demo_env\<lparr>os_stat_size := (\<lambda>p. Inr 2000000)\<rparr>"

definition demo_env_Jon :: env where
  "demo_env_Jon = demo_env\<lparr>os_getlogin := ''Jon''\<rparr>"

definition demo_three :: "event list" where
  "demo_three = [demo_event Created ''a.xdrx'', demo_event Created ''b.xdrx'',
                 demo_event Created ''c.xdrx'']"

text \<open>Three created events and two modified events, the second of a file that cannot be
  read, all on the demo machine; and a user whose login name is e with acute accent.\<close>

definition demo_created_run :: "(env \<times> event) list" where
  "demo_created_run = map (\<lambda>ev. (demo_env, ev)) demo_three"

definition demo_modified_run :: "(env \<times> event) list" where
  "demo_modified_run =
     [(demo_env, demo_event Modified ''big.eds''), (demo_env, demo_event Modified ''gone.eds'')]"

definition demo_env_accent :: env where
  "demo_env_accent = demo_env\<lparr>os_getlogin := [CHR 0xE9]\<rparr>"

definition demo_env_Sept :: env where
  "demo_env_Sept = demo_env\<lparr>os_path_isdir := (\<lambda>p. p = build_path ''Sept'' ''2026'')\<rparr>"

section \<open>Properties\<close>

subsection \<open>Shared facts\<close>

lemma str_in_sublist: "str_in sub s = sublist sub s"
  by (induction s) (simp_all add: sublist_Cons_right)

lemma print_simps:
  "recent_events (print l s) = recent_events s"
  "q_cnt_field (print l s) = q_cnt_field s"
  "v_cnt_field (print l s) = v_cnt_field s"
  "console (print l s) = console s @ [Print l]"
  by (simp_all add: print_def)

lemma notif_fields:
  "recent_events (fst (notif E s ev c)) = deque_append recent_maxlen (recent_events s) (src_path ev)"
  "q_cnt_field (fst (notif E s ev c)) = q_cnt_field s"
  "v_cnt_field (fst (notif E s ev c)) = v_cnt_field s"
  "snd (notif E s ev c) = c - 1"
  by (simp_all add: notif_def Let_def print_simps)

lemma notif_console:
  "console (fst (notif E s ev c)) =
     console s
     @ (if distinguished E ev c
        then [FlashWindow, Print (bright_time E @ distinguished_message E ev)]
        else [Print (bright_time E @ normal_message E ev)])
     @ (if c = 1 then [Print (no_longer_line E ev)] else [])"
  by (simp add: notif_def Let_def print_simps)

subsection \<open>The counters' setters\<close>

text \<open>
  C3. For each source's counter: from 0, a first \<open>set(0)\<close> gives a value above 9 (the
  always regime) and a second gives 0 again. In general \<open>set(0)\<close> sends a value above 0
  to 0 and a value at or below 0 to the sentinel 1337, and \<open>set(n)\<close> for a digit \<open>n\<close> from
  1 to 9 sets the counter to \<open>n\<close>.
\<close>

theorem counter_set_rules:
  "(q_cnt_field s = 0 \<longrightarrow>
      q_cnt_field (q_cnt_setter s 0) > 9
      \<and> q_cnt_field (q_cnt_setter (q_cnt_setter s 0) 0) = 0)
   \<and> (v_cnt_field s = 0 \<longrightarrow>
      v_cnt_field (v_cnt_setter s 0) > 9
      \<and> v_cnt_field (v_cnt_setter (v_cnt_setter s 0) 0) = 0)
   \<and> (q_cnt_field s > 0 \<longrightarrow> q_cnt_field (q_cnt_setter s 0) = 0)
   \<and> (q_cnt_field s \<le> 0 \<longrightarrow> q_cnt_field (q_cnt_setter s 0) = 1337)
   \<and> (v_cnt_field s > 0 \<longrightarrow> v_cnt_field (v_cnt_setter s 0) = 0)
   \<and> (v_cnt_field s \<le> 0 \<longrightarrow> v_cnt_field (v_cnt_setter s 0) = 1337)
   \<and> (1 \<le> n \<and> n \<le> 9 \<longrightarrow>
        q_cnt_field (q_cnt_setter s n) = n \<and> v_cnt_field (v_cnt_setter s n) = n)"
  by (simp add: q_cnt_setter_def v_cnt_setter_def)

theorem counter_set_rules_witness:
  "q_cnt_field LabHandler_init = 0
   \<and> q_cnt_field (q_cnt_setter LabHandler_init 0) = 1337
   \<and> q_cnt_field (q_cnt_setter (q_cnt_setter LabHandler_init 0) 0) = 0
   \<and> v_cnt_field (v_cnt_setter LabHandler_init 0) = 1337
   \<and> v_cnt_field (v_cnt_setter (v_cnt_setter LabHandler_init 0) 0) = 0
   \<and> q_cnt_field (q_cnt_setter LabHandler_init 5) = 5
   \<and> v_cnt_field (v_cnt_setter LabHandler_init 5) = 5"
  using counter_set_rules [of LabHandler_init 5]
  by (simp add: LabHandler_init_def q_cnt_setter_def v_cnt_setter_def)

subsection \<open>The recent-event ledger\<close>

lemma deque_append_drop:
  "deque_append m (drop (length xs - m) xs) q = drop (length (xs @ [q]) - m) (xs @ [q])"
proof (cases "length xs \<le> m")
  case True
  then show ?thesis by (simp add: deque_append_def)
next
  case False
  then have "length (drop (length xs - m) xs @ [q]) - m = 1"
    by simp
  then have "deque_append m (drop (length xs - m) xs) q
               = drop 1 (drop (length xs - m) xs @ [q])"
    by (simp only: deque_append_def Let_def)
  also have "\<dots> = drop 1 (drop (length xs - m) (xs @ [q]))"
    by simp
  also have "\<dots> = drop (1 + (length xs - m)) (xs @ [q])"
    by (simp only: drop_drop)
  also have "1 + (length xs - m) = length (xs @ [q]) - m"
    using False by simp
  finally show ?thesis .
qed

lemma deque_append_run:
  "foldl (deque_append m) (deque_append m d p) ps = drop (length (d @ p # ps) - m) (d @ p # ps)"
proof (induction ps rule: rev_induct)
  case Nil
  show ?case by (simp add: deque_append_def)
next
  case (snoc q qs)
  have "foldl (deque_append m) (deque_append m d p) (qs @ [q])
          = deque_append m (drop (length (d @ p # qs) - m) (d @ p # qs)) q"
    using snoc.IH by simp
  also have "\<dots> = drop (length ((d @ p # qs) @ [q]) - m) ((d @ p # qs) @ [q])"
    by (rule deque_append_drop)
  finally show ?case by simp
qed

lemma notif_run_recent:
  "recent_events (fst (notif_run E s c evs)) =
     foldl (deque_append recent_maxlen) (recent_events s) (map src_path evs)"
proof (induction evs arbitrary: s c)
  case Nil
  show ?case by simp
next
  case (Cons ev evs)
  obtain s1 c1 where n: "notif E s ev c = (s1, c1)" by (cases "notif E s ev c")
  have "recent_events s1 = deque_append recent_maxlen (recent_events s) (src_path ev)"
    using notif_fields(1) [of E s ev c] n by simp
  then show ?case using Cons.IH [of s1 c1] n by simp
qed

lemma demo_runs_length: "length demo_runs = 31"
  by (simp add: demo_runs_def)

lemma demo_runs_distinct: "distinct (map src_path demo_runs)"
proof -
  have "inj_on (\<lambda>k. replicate k CHR ''r'' @ ''.xdrx'') (set [0..<31])"
  proof (rule inj_onI)
    fix j k :: nat
    assume "replicate j CHR ''r'' @ ''.xdrx'' = replicate k CHR ''r'' @ ''.xdrx''"
    then have "length (replicate j CHR ''r'' @ ''.xdrx'') = length (replicate k CHR ''r'' @ ''.xdrx'')"
      by (rule arg_cong)
    then show "j = k" by simp
  qed
  then have "distinct (map (\<lambda>k. replicate k CHR ''r'' @ ''.xdrx'') [0..<31])"
    by (simp add: distinct_map)
  moreover have "map src_path demo_runs = map (\<lambda>k. replicate k CHR ''r'' @ ''.xdrx'') [0..<31]"
    by (simp add: demo_runs_def demo_event_def)
  ultimately show ?thesis by simp
qed

text \<open>
  C6. Recording 31 distinct paths, from any state of the ledger, leaves exactly the 2nd to
  the 31st in it: the 1st recorded path is no longer seen, and each of the 2nd to the 31st
  is.
\<close>

theorem ledger_evicts_oldest:
  assumes "length evs = 31" and "distinct (map src_path evs)"
  shows "recent_events (fst (notif_run E s c evs)) = map src_path (tl evs)
         \<and> src_path (hd evs) \<notin> set (recent_events (fst (notif_run E s c evs)))
         \<and> (\<forall>k::nat. 1 \<le> k \<and> k < 31 \<longrightarrow>
               src_path (evs ! k) \<in> set (recent_events (fst (notif_run E s c evs))))"
proof -
  let ?ps = "map src_path evs"
  let ?d = "recent_events s"
  obtain e es where evs: "evs = e # es" using assms(1) by (cases evs) auto
  have "recent_events (fst (notif_run E s c evs))
          = foldl (deque_append 30) (deque_append 30 ?d (src_path e)) (map src_path es)"
    unfolding notif_run_recent by (simp add: evs recent_maxlen_def)
  also have "\<dots> = drop (length (?d @ ?ps) - 30) (?d @ ?ps)"
    by (simp only: deque_append_run evs list.map)
  also have "\<dots> = drop 1 ?ps"
    using assms(1) by simp
  finally have eq: "recent_events (fst (notif_run E s c evs)) = map src_path (tl evs)"
    by (simp add: drop_Suc map_tl)
  have out: "src_path (hd evs) \<notin> set (map src_path (tl evs))"
    using assms(2) evs by simp
  have inn: "\<forall>k::nat. 1 \<le> k \<and> k < 31 \<longrightarrow> src_path (evs ! k) \<in> set (map src_path (tl evs))"
  proof (intro allI impI)
    fix k :: nat assume k: "1 \<le> k \<and> k < 31"
    then obtain j where j: "k = Suc j" by (cases k) auto
    have "j < length es" using k j assms(1) evs by simp
    then have "es ! j \<in> set es" by simp
    then show "src_path (evs ! k) \<in> set (map src_path (tl evs))"
      using evs j by simp
  qed
  show ?thesis using eq out inn by simp
qed


theorem ledger_evicts_oldest_witness:
  "length demo_runs = 31 \<and> distinct (map src_path demo_runs)
   \<and> src_path (hd demo_runs) \<notin> set (recent_events (fst (notif_run demo_env LabHandler_init 0 demo_runs)))
   \<and> src_path (demo_runs ! 1) \<in> set (recent_events (fst (notif_run demo_env LabHandler_init 0 demo_runs)))
   \<and> src_path (demo_runs ! 30) \<in> set (recent_events (fst (notif_run demo_env LabHandler_init 0 demo_runs)))"
proof -
  note t = ledger_evicts_oldest [OF demo_runs_length demo_runs_distinct, of demo_env LabHandler_init 0]
  have a: "src_path (hd demo_runs) \<notin> set (recent_events (fst (notif_run demo_env LabHandler_init 0 demo_runs)))"
    using t by (rule conjunct2 [THEN conjunct1])
  have b: "\<forall>k::nat. 1 \<le> k \<and> k < 31 \<longrightarrow>
               src_path (demo_runs ! k) \<in> set (recent_events (fst (notif_run demo_env LabHandler_init 0 demo_runs)))"
    using t by (rule conjunct2 [THEN conjunct2])
  have b1: "src_path (demo_runs ! 1) \<in> set (recent_events (fst (notif_run demo_env LabHandler_init 0 demo_runs)))"
    using b [rule_format, of 1] by simp
  have b30: "src_path (demo_runs ! 30) \<in> set (recent_events (fst (notif_run demo_env LabHandler_init 0 demo_runs)))"
    using b [rule_format, of 30] by simp
  show ?thesis
    using demo_runs_length demo_runs_distinct a b1 b30 by (intro conjI)
qed

subsection \<open>Duplicate suppression\<close>

lemma seen_unchanged:
  "src_path ev \<in> set (recent_events s) \<Longrightarrow> on_modified E s ev = s"
  "src_path ev \<in> set (recent_events s) \<Longrightarrow> on_created E s ev = s"
  "src_path ev \<in> set (recent_events s) \<Longrightarrow> dispatch E s ev = s"
  by (simp_all add: on_modified_def on_created_def dispatch_def split: event_type.split)

lemma is_large_enough_recent:
  "recent_events (fst (is_large_enough E s p)) = recent_events s"
  by (simp add: is_large_enough_def Let_def print_simps split: sum.split)

lemma dispatch_recent:
  "recent_events (dispatch E s ev) = recent_events s
   \<or> recent_events (dispatch E s ev) = deque_append recent_maxlen (recent_events s) (src_path ev)"
proof (cases "event_type ev")
  case Modified
  obtain s1 b where l: "is_large_enough E s (src_path ev) = (s1, b)"
    by (cases "is_large_enough E s (src_path ev)")
  have r: "recent_events s1 = recent_events s"
    using is_large_enough_recent [of E s "src_path ev"] l by simp
  obtain s2 c where n: "notif E s1 ev (v_cnt_field s1) = (s2, c)"
    by (cases "notif E s1 ev (v_cnt_field s1)")
  have "recent_events s2 = deque_append recent_maxlen (recent_events s) (src_path ev)"
    using notif_fields(1) [of E s1 ev "v_cnt_field s1"] n r by simp
  then show ?thesis
    using Modified l n r by (cases b) (simp_all add: dispatch_def on_modified_def)
next
  case Created
  obtain s2 c where n: "notif E s ev (q_cnt_field s) = (s2, c)"
    by (cases "notif E s ev (q_cnt_field s)")
  have "recent_events s2 = deque_append recent_maxlen (recent_events s) (src_path ev)"
    using notif_fields(1) [of E s ev "q_cnt_field s"] n by simp
  then show ?thesis
    using Created n by (simp add: dispatch_def on_created_def)
next
  case Moved
  then show ?thesis by (simp add: dispatch_def)
next
  case Deleted
  then show ?thesis by (simp add: dispatch_def)
qed

lemma among_last_seen: "among_last k p l \<Longrightarrow> p \<in> set l"
  unfolding among_last_def by (rule in_set_dropD)

lemma among_last_mono:
  assumes "among_last k p l"
  shows "among_last (Suc k) p l"
proof -
  have "length l - Suc k \<le> length l - k"
    by simp
  then have "set (drop (length l - k) l) \<subseteq> set (drop (length l - Suc k) l)"
    by (rule set_drop_subset_set_drop)
  then show ?thesis
    using assms unfolding among_last_def by blast
qed

lemma among_last_recorded: "0 < m \<Longrightarrow> among_last 1 p (deque_append m l p)"
  unfolding among_last_def deque_append_def Let_def by (simp add: min_def)

lemma among_last_append:
  assumes "among_last k p l" and "k < m"
  shows "among_last (Suc k) p (deque_append m l x)"
proof -
  let ?l' = "deque_append m l x"
  have l': "?l' = drop (length l + 1 - m) (l @ [x])"
    by (simp add: deque_append_def)
  have len: "length ?l' = min (length l + 1) m"
    unfolding l' by simp
  have "drop (length ?l' - Suc k) ?l' = drop (length ?l' - Suc k + (length l + 1 - m)) (l @ [x])"
    unfolding l' by (simp only: drop_drop)
  also have "length ?l' - Suc k + (length l + 1 - m) = length l - k"
    using len assms(2) by (simp add: min_def)
  also have "drop (length l - k) (l @ [x]) = drop (length l - k) l @ [x]"
    by simp
  finally show ?thesis
    using assms(1) unfolding among_last_def by simp
qed

lemma dispatch_all_keeps:
  "among_last k p (recent_events s) \<Longrightarrow> k + length evs \<le> recent_maxlen
   \<Longrightarrow> among_last (k + length evs) p (recent_events (dispatch_all s evs))"
proof (induction evs arbitrary: s k)
  case Nil
  then show ?case by simp
next
  case (Cons x evs)
  obtain E ev where x: "x = (E, ev)" by (cases x)
  have "among_last (Suc k) p (recent_events (dispatch E s ev))"
    using dispatch_recent [of E s ev] Cons.prems among_last_mono [of k p "recent_events s"]
      among_last_append [of k p "recent_events s" recent_maxlen "src_path ev"]
    by auto
  then have "among_last (Suc k + length evs) p (recent_events (dispatch_all (dispatch E s ev) evs))"
    using Cons.IH [of "Suc k" "dispatch E s ev"] Cons.prems(2) by simp
  then show ?case using x by simp
qed

text \<open>
  C5. An event whose path is in the ledger is not notified: \<open>on_modified\<close>, \<open>on_created\<close>
  and the dispatch of either leave the whole state (ledger, both counters, console) as
  it was. A path is in the ledger as long as fewer than 30 events were handled since it
  was recorded, so within that window the event is still suppressed.
\<close>

theorem seen_path_not_renotified:
  "(src_path ev \<in> set (recent_events s) \<longrightarrow>
      on_modified E s ev = s \<and> on_created E s ev = s \<and> dispatch E s ev = s)
   \<and> (recent_events s = deque_append recent_maxlen l (src_path ev) \<and> length evs < 30 \<longrightarrow>
        src_path ev \<in> set (recent_events (dispatch_all s evs))
        \<and> dispatch E (dispatch_all s evs) ev = dispatch_all s evs)"
proof (intro conjI impI)
  assume a: "recent_events s = deque_append recent_maxlen l (src_path ev) \<and> length evs < 30"
  have "among_last 1 (src_path ev) (recent_events s)"
    using a among_last_recorded [of recent_maxlen "src_path ev" l] by (simp add: recent_maxlen_def)
  then have "among_last (1 + length evs) (src_path ev) (recent_events (dispatch_all s evs))"
    using a by (intro dispatch_all_keeps) (simp_all add: recent_maxlen_def)
  then show "src_path ev \<in> set (recent_events (dispatch_all s evs))"
    by (rule among_last_seen)
  then show "dispatch E (dispatch_all s evs) ev = dispatch_all s evs"
    by (rule seen_unchanged)
qed (simp_all add: seen_unchanged)


theorem seen_path_not_renotified_witness:
  "src_path (demo_event Created ''a.xdrx'') \<in> set (recent_events demo_seen_state)
   \<and> on_modified demo_env demo_seen_state (demo_event Created ''a.xdrx'') = demo_seen_state
   \<and> on_created demo_env demo_seen_state (demo_event Created ''a.xdrx'') = demo_seen_state
   \<and> dispatch demo_env demo_seen_state (demo_event Created ''a.xdrx'') = demo_seen_state
   \<and> length [(demo_env, demo_event Created ''b.xdrx'')] < 30
   \<and> dispatch demo_env
        (dispatch_all demo_seen_state [(demo_env, demo_event Created ''b.xdrx'')])
        (demo_event Created ''a.xdrx'')
      = dispatch_all demo_seen_state [(demo_env, demo_event Created ''b.xdrx'')]"
proof -
  have m: "src_path (demo_event Created ''a.xdrx'') \<in> set (recent_events demo_seen_state)"
    by (simp add: demo_seen_state_def demo_event_def LabHandler_init_def deque_append_def
        recent_maxlen_def)
  have r: "recent_events demo_seen_state
             = deque_append recent_maxlen [''g'', ''h'', ''i''] (src_path (demo_event Created ''a.xdrx''))"
    by (simp add: demo_seen_state_def demo_event_def)
  show ?thesis
    using m r
      seen_path_not_renotified [of "demo_event Created ''a.xdrx''" demo_seen_state demo_env
        "[''g'', ''h'', ''i'']" "[(demo_env, demo_event Created ''b.xdrx'')]"]
    by simp
qed

subsection \<open>The size gate\<close>

lemma is_large_enough_ok:
  "os_stat_size E p = Inr n \<Longrightarrow> is_large_enough E s p = (s, n > 1300000)"
  by (simp add: is_large_enough_def)

text \<open>
  C10. A modified event whose path contains \<^verbatim>\<open>.eds\<close> and is not in the ledger, but whose
  file has at most 1300000 bytes, changes nothing: no line is printed, the path is not
  recorded and both counters stay. A later event for the same path whose file has grown
  past the threshold is therefore notified and recorded.
\<close>

theorem small_file_not_recorded:
  assumes "str_in ''.eds'' (src_path ev)"
    and "src_path ev \<notin> set (recent_events s)"
    and "os_stat_size E (src_path ev) = Inr n"
    and "n \<le> 1300000"
  shows "on_modified E s ev = s
         \<and> (\<forall>E' n'. os_stat_size E' (src_path ev) = Inr n' \<and> n' > 1300000 \<longrightarrow>
               on_modified E' (on_modified E s ev) ev
                 = (fst (notif E' s ev (v_cnt_field s)))\<lparr>v_cnt_field := v_cnt_field s - 1\<rparr>
               \<and> src_path ev \<in> set (recent_events (on_modified E' (on_modified E s ev) ev))
               \<and> console (on_modified E' (on_modified E s ev) ev) \<noteq> console s)"
proof -
  have same: "on_modified E s ev = s"
    using assms by (simp add: on_modified_def is_large_enough_ok)
  have later: "on_modified E' s ev
                 = (fst (notif E' s ev (v_cnt_field s)))\<lparr>v_cnt_field := v_cnt_field s - 1\<rparr>
               \<and> src_path ev \<in> set (recent_events (on_modified E' s ev))
               \<and> console (on_modified E' s ev) \<noteq> console s"
    if big: "os_stat_size E' (src_path ev) = Inr n'" "n' > 1300000" for E' n'
  proof -
    obtain s2 c where n: "notif E' s ev (v_cnt_field s) = (s2, c)"
      by (cases "notif E' s ev (v_cnt_field s)")
    have c: "c = v_cnt_field s - 1"
      using notif_fields(4) [of E' s ev "v_cnt_field s"] n by simp
    have eq: "on_modified E' s ev = s2\<lparr>v_cnt_field := v_cnt_field s - 1\<rparr>"
      using assms(1,2) big n c by (simp add: on_modified_def is_large_enough_ok)
    have "recent_events s2 = deque_append recent_maxlen (recent_events s) (src_path ev)"
      using notif_fields(1) [of E' s ev "v_cnt_field s"] n by simp
    then have rec: "src_path ev \<in> set (recent_events s2)"
      by (simp add: deque_append_def recent_maxlen_def)
    have "console s2 \<noteq> console s"
      using notif_console [of E' s ev "v_cnt_field s"] n by simp
    then show ?thesis using eq rec n by simp
  qed
  show ?thesis unfolding same using later by blast
qed


theorem small_file_not_recorded_witness:
  "str_in ''.eds'' (src_path (demo_event Modified ''small.eds''))
   \<and> src_path (demo_event Modified ''small.eds'') \<notin> set (recent_events LabHandler_init)
   \<and> os_stat_size demo_env (src_path (demo_event Modified ''small.eds'')) = Inr 1000
   \<and> (1000 :: nat) \<le> 1300000
   \<and> on_modified demo_env LabHandler_init (demo_event Modified ''small.eds'') = LabHandler_init
   \<and> os_stat_size demo_env_big (src_path (demo_event Modified ''small.eds'')) = Inr 2000000
   \<and> src_path (demo_event Modified ''small.eds'')
        \<in> set (recent_events (on_modified demo_env_big
                  (on_modified demo_env LabHandler_init (demo_event Modified ''small.eds''))
                  (demo_event Modified ''small.eds'')))"
proof -
  have a: "str_in ''.eds'' (src_path (demo_event Modified ''small.eds''))"
    by (simp add: demo_event_def)
  have b: "src_path (demo_event Modified ''small.eds'') \<notin> set (recent_events LabHandler_init)"
    by (simp add: demo_event_def LabHandler_init_def)
  have c: "os_stat_size demo_env (src_path (demo_event Modified ''small.eds'')) = Inr 1000"
    by (simp add: demo_event_def demo_env_def)
  have d: "(1000 :: nat) \<le> 1300000"
    by simp
  have e: "os_stat_size demo_env_big (src_path (demo_event Modified ''small.eds'')) = Inr 2000000"
    by (simp add: demo_env_big_def)
  have big: "(2000000 :: nat) > 1300000"
    by simp
  note t = small_file_not_recorded [OF a b c d]
  have same: "on_modified demo_env LabHandler_init (demo_event Modified ''small.eds'') = LabHandler_init"
    using t by (rule conjunct1)
  have "\<forall>E' n'. os_stat_size E' (src_path (demo_event Modified ''small.eds'')) = Inr n'
            \<and> n' > 1300000 \<longrightarrow>
          on_modified E' (on_modified demo_env LabHandler_init (demo_event Modified ''small.eds''))
              (demo_event Modified ''small.eds'')
            = (fst (notif E' LabHandler_init (demo_event Modified ''small.eds'')
                 (v_cnt_field LabHandler_init)))\<lparr>v_cnt_field := v_cnt_field LabHandler_init - 1\<rparr>
          \<and> src_path (demo_event Modified ''small.eds'')
              \<in> set (recent_events (on_modified E'
                       (on_modified demo_env LabHandler_init (demo_event Modified ''small.eds''))
                       (demo_event Modified ''small.eds'')))
          \<and> console (on_modified E'
                (on_modified demo_env LabHandler_init (demo_event Modified ''small.eds''))
                (demo_event Modified ''small.eds'')) \<noteq> console LabHandler_init"
    using t by (rule conjunct2)
  then have later: "src_path (demo_event Modified ''small.eds'')
        \<in> set (recent_events (on_modified demo_env_big
                  (on_modified demo_env LabHandler_init (demo_event Modified ''small.eds''))
                  (demo_event Modified ''small.eds'')))"
    using e big by blast
  show ?thesis
    using a b c d e same later by (intro conjI)
qed

text \<open>
  C8. When \<^verbatim>\<open>os.stat\<close> fails, \<open>is_large_enough\<close> prints the error text in red and then a
  warning line that starts with the bright timestamp, and answers True; \<open>on_modified\<close>
  then goes on to the notification, which records the path.
\<close>

theorem stat_failure_warns_and_accepts:
  assumes "os_stat_size E path = Inl e"
  shows "snd (is_large_enough E s path) = True
   \<and> console (fst (is_large_enough E s path))
       = console s
         @ [Print (Fore_RED (colours E) @ '' '' @ e @ '' '' @ Style_RESET_ALL (colours E)),
            Print (bright_time E @ ljust 21 CHR '' '' ('' -  '' @ viia7_str E) @ file_name E path
                   @ '' wasn't saved properly!''
                   @ '' You'll need to analyse and save the run again from the machine.'')]
   \<and> (str_in ''.eds'' path \<and> path \<notin> set (recent_events s) \<and> src_path ev = path \<longrightarrow>
        on_modified E s ev
          = (fst (notif E (fst (is_large_enough E s path)) ev (v_cnt_field s)))
              \<lparr>v_cnt_field := v_cnt_field s - 1\<rparr>
        \<and> path \<in> set (recent_events (on_modified E s ev)))"
proof -
  define s1 where "s1 = fst (is_large_enough E s path)"
  have l: "is_large_enough E s path = (s1, True)"
    unfolding s1_def using assms by (simp add: is_large_enough_def Let_def)
  have con: "console s1
       = console s
         @ [Print (Fore_RED (colours E) @ '' '' @ e @ '' '' @ Style_RESET_ALL (colours E)),
            Print (bright_time E @ ljust 21 CHR '' '' ('' -  '' @ viia7_str E) @ file_name E path
                   @ '' wasn't saved properly!''
                   @ '' You'll need to analyse and save the run again from the machine.'')]"
    unfolding s1_def using assms by (simp add: is_large_enough_def Let_def print_simps)
  have v: "v_cnt_field s1 = v_cnt_field s"
    unfolding s1_def using assms by (simp add: is_large_enough_def Let_def print_simps)
  have rs: "recent_events s1 = recent_events s"
    unfolding s1_def using assms by (simp add: is_large_enough_def Let_def print_simps)
  have proceeds: "on_modified E s ev
          = (fst (notif E s1 ev (v_cnt_field s)))\<lparr>v_cnt_field := v_cnt_field s - 1\<rparr>
        \<and> path \<in> set (recent_events (on_modified E s ev))"
    if h: "str_in ''.eds'' path \<and> path \<notin> set (recent_events s) \<and> src_path ev = path"
  proof -
    obtain s2 c where n: "notif E s1 ev (v_cnt_field s) = (s2, c)"
      by (cases "notif E s1 ev (v_cnt_field s)")
    have c: "c = v_cnt_field s - 1"
      using notif_fields(4) [of E s1 ev "v_cnt_field s"] n by simp
    have eq: "on_modified E s ev = s2\<lparr>v_cnt_field := v_cnt_field s - 1\<rparr>"
      using h l n c v by (simp add: on_modified_def)
    have "recent_events s2 = deque_append recent_maxlen (recent_events s1) (src_path ev)"
      using notif_fields(1) [of E s1 ev "v_cnt_field s"] n by simp
    then have "path \<in> set (recent_events s2)"
      using h by (simp add: deque_append_def recent_maxlen_def)
    then show ?thesis using eq n by simp
  qed
  show ?thesis unfolding l fst_conv snd_conv using con proceeds by blast
qed


theorem stat_failure_warns_and_accepts_witness:
  "os_stat_size demo_env ''gone.eds'' = Inl ''No such file''
   \<and> snd (is_large_enough demo_env LabHandler_init ''gone.eds'') = True
   \<and> console (fst (is_large_enough demo_env LabHandler_init ''gone.eds''))
       = [Print (Fore_RED (colours demo_env) @ '' No such file '' @ Style_RESET_ALL (colours demo_env)),
          Print (bright_time demo_env @ ljust 21 CHR '' '' ('' -  '' @ viia7_str demo_env)
                 @ ''gone wasn't saved properly! You'll need to analyse and save the run again from the machine.'')]
   \<and> ''gone.eds'' \<in> set (recent_events (on_modified demo_env LabHandler_init (demo_event Modified ''gone.eds'')))"
proof -
  have a: "os_stat_size demo_env ''gone.eds'' = Inl ''No such file''"
    by (simp add: demo_env_def)
  have f: "file_name demo_env ''gone.eds'' = ''gone''"
    by (simp add: file_name_def demo_env_def backslash_def nt_splitext_def Let_def)
  have h: "str_in ''.eds'' ''gone.eds'' \<and> ''gone.eds'' \<notin> set (recent_events LabHandler_init)
           \<and> src_path (demo_event Modified ''gone.eds'') = ''gone.eds''"
    by (simp add: demo_event_def LabHandler_init_def)
  have c0: "console LabHandler_init = []"
    by (simp add: LabHandler_init_def)
  note t = stat_failure_warns_and_accepts [OF a, of LabHandler_init "demo_event Modified ''gone.eds''"]
  have t1: "snd (is_large_enough demo_env LabHandler_init ''gone.eds'') = True"
    using t by (rule conjunct1)
  have "console (fst (is_large_enough demo_env LabHandler_init ''gone.eds''))
       = console LabHandler_init
         @ [Print (Fore_RED (colours demo_env) @ '' '' @ ''No such file'' @ '' ''
                   @ Style_RESET_ALL (colours demo_env)),
            Print (bright_time demo_env @ ljust 21 CHR '' '' ('' -  '' @ viia7_str demo_env)
                   @ file_name demo_env ''gone.eds''
                   @ '' wasn't saved properly!''
                   @ '' You'll need to analyse and save the run again from the machine.'')]"
    using t by (rule conjunct2 [THEN conjunct1])
  then have t2: "console (fst (is_large_enough demo_env LabHandler_init ''gone.eds''))
       = [Print (Fore_RED (colours demo_env) @ '' No such file '' @ Style_RESET_ALL (colours demo_env)),
          Print (bright_time demo_env @ ljust 21 CHR '' '' ('' -  '' @ viia7_str demo_env)
                 @ ''gone wasn't saved properly! You'll need to analyse and save the run again from the machine.'')]"
    by (simp add: f c0)
  have "str_in ''.eds'' ''gone.eds'' \<and> ''gone.eds'' \<notin> set (recent_events LabHandler_init)
          \<and> src_path (demo_event Modified ''gone.eds'') = ''gone.eds'' \<longrightarrow>
        on_modified demo_env LabHandler_init (demo_event Modified ''gone.eds'')
          = (fst (notif demo_env (fst (is_large_enough demo_env LabHandler_init ''gone.eds''))
                (demo_event Modified ''gone.eds'') (v_cnt_field LabHandler_init)))
              \<lparr>v_cnt_field := v_cnt_field LabHandler_init - 1\<rparr>
        \<and> ''gone.eds'' \<in> set (recent_events (on_modified demo_env LabHandler_init
                                   (demo_event Modified ''gone.eds'')))"
    using t by (rule conjunct2 [THEN conjunct2])
  then have t3: "''gone.eds'' \<in> set (recent_events (on_modified demo_env LabHandler_init
                                   (demo_event Modified ''gone.eds'')))"
    using h by blast
  show ?thesis
    using a t1 t2 t3 by (intro conjI)
qed

subsection \<open>Rendering and the countdown\<close>

lemma deque_append_set: "set (deque_append m l x) \<subseteq> insert x (set l)"
proof -
  have "set (drop (length (l @ [x]) - m) (l @ [x])) \<subseteq> set (l @ [x])"
    by (rule set_drop_subset)
  then show ?thesis
    by (simp add: deque_append_def)
qed

lemma concat_singletons:
  "concat (map (\<lambda>(E, ev). [f E ev]) xs) = map (\<lambda>(E, ev). f E ev) xs"
  by (induction xs) auto

lemma is_large_enough_eq:
  "is_large_enough E s p = (s\<lparr>console := console s @ size_warning E p\<rparr>, accepted E p)"
  by (simp add: is_large_enough_def size_warning_def accepted_def Let_def print_def
      split: sum.split)

lemma notif_render: "console (fst (notif E s ev c)) = console s @ render_effects E ev c"
  by (simp add: notif_console render_effects_def)

lemma on_created_eligible:
  assumes "str_in ''.xdrx'' (src_path ev)" and "src_path ev \<notin> set (recent_events s)"
  shows "q_cnt_field (on_created E s ev) = q_cnt_field s - 1"
    and "v_cnt_field (on_created E s ev) = v_cnt_field s"
    and "recent_events (on_created E s ev)
           = deque_append recent_maxlen (recent_events s) (src_path ev)"
    and "console (on_created E s ev) = console s @ [] @ render_effects E ev (q_cnt_field s)"
proof -
  obtain s1 c where n: "notif E s ev (q_cnt_field s) = (s1, c)"
    by (cases "notif E s ev (q_cnt_field s)")
  have eq: "on_created E s ev = s1\<lparr>q_cnt_field := c\<rparr>"
    using assms n by (simp add: on_created_def)
  have f: "c = q_cnt_field s - 1" "v_cnt_field s1 = v_cnt_field s"
    "recent_events s1 = deque_append recent_maxlen (recent_events s) (src_path ev)"
    "console s1 = console s @ render_effects E ev (q_cnt_field s)"
    using notif_fields [of E s ev "q_cnt_field s"] notif_render [of E s ev "q_cnt_field s"] n
    by simp_all
  show "q_cnt_field (on_created E s ev) = q_cnt_field s - 1"
    and "v_cnt_field (on_created E s ev) = v_cnt_field s"
    and "recent_events (on_created E s ev)
           = deque_append recent_maxlen (recent_events s) (src_path ev)"
    and "console (on_created E s ev) = console s @ [] @ render_effects E ev (q_cnt_field s)"
    using eq f by simp_all
qed

lemma on_modified_eligible:
  assumes "str_in ''.eds'' (src_path ev) \<and> accepted E (src_path ev)"
    and "src_path ev \<notin> set (recent_events s)"
  shows "v_cnt_field (on_modified E s ev) = v_cnt_field s - 1"
    and "q_cnt_field (on_modified E s ev) = q_cnt_field s"
    and "recent_events (on_modified E s ev)
           = deque_append recent_maxlen (recent_events s) (src_path ev)"
    and "console (on_modified E s ev)
           = console s @ size_warning E (src_path ev) @ render_effects E ev (v_cnt_field s)"
proof -
  define s0 where "s0 = s\<lparr>console := console s @ size_warning E (src_path ev)\<rparr>"
  obtain s1 c where n: "notif E s0 ev (v_cnt_field s) = (s1, c)"
    by (cases "notif E s0 ev (v_cnt_field s)")
  have eq: "on_modified E s ev = s1\<lparr>v_cnt_field := c\<rparr>"
    using assms n by (simp add: on_modified_def is_large_enough_eq s0_def)
  have f: "c = v_cnt_field s - 1" "q_cnt_field s1 = q_cnt_field s"
    "recent_events s1 = deque_append recent_maxlen (recent_events s) (src_path ev)"
    "console s1 = console s @ size_warning E (src_path ev) @ render_effects E ev (v_cnt_field s)"
    using notif_fields [of E s0 ev "v_cnt_field s"] notif_render [of E s0 ev "v_cnt_field s"] n
    by (simp_all add: s0_def)
  show "v_cnt_field (on_modified E s ev) = v_cnt_field s - 1"
    and "q_cnt_field (on_modified E s ev) = q_cnt_field s"
    and "recent_events (on_modified E s ev)
           = deque_append recent_maxlen (recent_events s) (src_path ev)"
    and "console (on_modified E s ev)
           = console s @ size_warning E (src_path ev) @ render_effects E ev (v_cnt_field s)"
    using eq f by simp_all
qed

lemma other_counter_kept:
  "v_cnt_field (on_created E s ev) = v_cnt_field s"
  "q_cnt_field (on_modified E s ev) = q_cnt_field s"
proof -
  obtain s1 c where n: "notif E s ev (q_cnt_field s) = (s1, c)"
    by (cases "notif E s ev (q_cnt_field s)")
  have "v_cnt_field s1 = v_cnt_field s"
    using notif_fields(3) [of E s ev "q_cnt_field s"] n by simp
  then show "v_cnt_field (on_created E s ev) = v_cnt_field s"
    using n by (simp add: on_created_def)
next
  define s0 where "s0 = s\<lparr>console := console s @ size_warning E (src_path ev)\<rparr>"
  obtain s1 c where n: "notif E s0 ev (v_cnt_field s) = (s1, c)"
    by (cases "notif E s0 ev (v_cnt_field s)")
  have "q_cnt_field s1 = q_cnt_field s"
    using notif_fields(2) [of E s0 ev "v_cnt_field s"] n by (simp add: s0_def)
  then show "q_cnt_field (on_modified E s ev) = q_cnt_field s"
    using n by (cases "accepted E (src_path ev)")
      (simp_all add: on_modified_def is_large_enough_eq s0_def)
qed

lemma other_counter_kept_all:
  "v_cnt_field (handle_all on_created s run) = v_cnt_field s"
  "q_cnt_field (handle_all on_modified s run) = q_cnt_field s"
  by (induction run arbitrary: s) (auto simp add: other_counter_kept)

text \<open>The countdown for either method of the handler: \<open>cnt\<close> reads the source's counter
  and \<open>pre\<close> is what is printed before the render.\<close>

lemma countdown_generic:
  assumes step: "\<And>E s ev. ok E ev \<Longrightarrow> src_path ev \<notin> set (recent_events s) \<Longrightarrow>
      cnt (h E s ev) = cnt s - 1
      \<and> recent_events (h E s ev) = deque_append recent_maxlen (recent_events s) (src_path ev)
      \<and> console (h E s ev) = console s @ pre E ev @ render_effects E ev (cnt s)"
  shows "1 \<le> c \<Longrightarrow> c \<le> 9 \<Longrightarrow> cnt s = c \<Longrightarrow> length run = nat c
    \<Longrightarrow> (\<forall>(E, ev) \<in> set run.
          ok E ev \<and> \<not> str_in (os_getlogin E) (str_lower E (src_path ev)))
    \<Longrightarrow> distinct (map (\<lambda>(E, ev). src_path ev) run)
    \<Longrightarrow> (\<forall>(E, ev) \<in> set run. src_path ev \<notin> set (recent_events s))
    \<Longrightarrow> cnt (handle_all h s run) = 0
        \<and> console (handle_all h s run)
            = console s
              @ concat (map (\<lambda>(E, ev). pre E ev @ [Print (bright_time E @ normal_message E ev)])
                          (butlast run))
              @ (case last run of (E, ev) \<Rightarrow>
                   pre E ev
                   @ [FlashWindow, Print (bright_time E @ distinguished_message E ev),
                      Print (no_longer_line E ev)])"
proof (induction run arbitrary: s c)
  case Nil
  then show ?case by simp
next
  case (Cons x run)
  obtain E ev where x: "x = (E, ev)"
    by (cases x)
  have ok: "ok E ev" and nologin: "\<not> str_in (os_getlogin E) (str_lower E (src_path ev))"
    and fresh: "src_path ev \<notin> set (recent_events s)"
    using Cons.prems(5,7) x by auto
  note st = step [OF ok fresh]
  define s1 where "s1 = h E s ev"
  have cnt1: "cnt s1 = c - 1"
    using st Cons.prems(3) by (simp add: s1_def)
  have con1: "console s1 = console s @ pre E ev @ render_effects E ev c"
    using st Cons.prems(3) by (simp add: s1_def)
  show ?case
  proof (cases "c = 1")
    case True
    then have e: "run = []"
      using Cons.prems(4) by simp
    have "render_effects E ev c
            = [FlashWindow, Print (bright_time E @ distinguished_message E ev),
               Print (no_longer_line E ev)]"
      using True by (simp add: render_effects_def distinguished_def)
    then show ?thesis
      using x e cnt1 con1 True by (simp add: s1_def)
  next
    case False
    then have c2: "1 \<le> c - 1" "c - 1 \<le> 9" "length run = nat (c - 1)"
      using Cons.prems(1,2,4) by simp_all
    then have ne: "run \<noteq> []"
      by auto
    have "\<not> distinguished E ev c"
      using nologin False Cons.prems(2) by (simp add: distinguished_def)
    then have re: "render_effects E ev c = [Print (bright_time E @ normal_message E ev)]"
      using False by (simp add: render_effects_def)
    have rec1: "set (recent_events s1) \<subseteq> insert (src_path ev) (set (recent_events s))"
      using st deque_append_set [of recent_maxlen "recent_events s" "src_path ev"]
      by (simp add: s1_def)
    have fresh1: "\<forall>(E', ev') \<in> set run. src_path ev' \<notin> set (recent_events s1)"
    proof (intro ballI, clarify)
      fix E' ev'
      assume m: "(E', ev') \<in> set run" and r: "src_path ev' \<in> set (recent_events s1)"
      have "src_path ev' \<notin> set (recent_events s)"
        using Cons.prems(7) m by auto
      then have "src_path ev' = src_path ev"
        using r rec1 by auto
      moreover have "src_path ev \<notin> (\<lambda>(E, ev). src_path ev) ` set run"
        using Cons.prems(6) x by simp
      ultimately show False
        using m by force
    qed
    have ih: "cnt (handle_all h s1 run) = 0
        \<and> console (handle_all h s1 run)
            = console s1
              @ concat (map (\<lambda>(E, ev). pre E ev @ [Print (bright_time E @ normal_message E ev)])
                          (butlast run))
              @ (case last run of (E, ev) \<Rightarrow>
                   pre E ev
                   @ [FlashWindow, Print (bright_time E @ distinguished_message E ev),
                      Print (no_longer_line E ev)])"
      using Cons.IH [of "c - 1" s1] c2 cnt1 Cons.prems(5,6) fresh1 by simp
    show ?thesis
      using x ih con1 re ne by (simp add: s1_def)
  qed
qed

text \<open>
  C1. Let a source's stored counter be \<open>n\<close> with \<open>1 < n \<le> 9\<close>, and let \<open>n\<close> events reach that
  source's method one after another, each eligible (the extension in the path, the path
  not seen before and not repeated, for \<open>on_modified\<close> the size gate passed) and with the
  login name not in its lowered path. Then the stored counter ends at 0 and the other
  source's counter is untouched. The first \<open>n - 1\<close> renders print the normal line; the
  \<open>n\<close>-th flashes the window, prints the distinguished line and then the line that the
  source is no longer notifying. For \<open>on_modified\<close>, a render whose size query failed is
  preceded by the two lines that \<open>is_large_enough\<close> prints.
\<close>

theorem countdown_reaches_zero:
  "(1 < n \<and> n \<le> 9 \<and> q_cnt_field s = n \<and> length run = nat n
      \<and> (\<forall>(E, ev) \<in> set run.
            str_in ''.xdrx'' (src_path ev)
            \<and> \<not> str_in (os_getlogin E) (str_lower E (src_path ev)))
      \<and> distinct (map (\<lambda>(E, ev). src_path ev) run)
      \<and> (\<forall>(E, ev) \<in> set run. src_path ev \<notin> set (recent_events s)) \<longrightarrow>
     q_cnt_field (handle_all on_created s run) = 0
     \<and> v_cnt_field (handle_all on_created s run) = v_cnt_field s
     \<and> console (handle_all on_created s run)
         = console s
           @ map (\<lambda>(E, ev). Print (bright_time E @ normal_message E ev)) (butlast run)
           @ (case last run of (E, ev) \<Rightarrow>
                [FlashWindow, Print (bright_time E @ distinguished_message E ev),
                 Print (no_longer_line E ev)]))
   \<and> (1 < n \<and> n \<le> 9 \<and> v_cnt_field s = n \<and> length run = nat n
      \<and> (\<forall>(E, ev) \<in> set run.
            (str_in ''.eds'' (src_path ev) \<and> accepted E (src_path ev))
            \<and> \<not> str_in (os_getlogin E) (str_lower E (src_path ev)))
      \<and> distinct (map (\<lambda>(E, ev). src_path ev) run)
      \<and> (\<forall>(E, ev) \<in> set run. src_path ev \<notin> set (recent_events s)) \<longrightarrow>
     v_cnt_field (handle_all on_modified s run) = 0
     \<and> q_cnt_field (handle_all on_modified s run) = q_cnt_field s
     \<and> console (handle_all on_modified s run)
         = console s
           @ concat (map (\<lambda>(E, ev). size_warning E (src_path ev)
                                    @ [Print (bright_time E @ normal_message E ev)])
                       (butlast run))
           @ (case last run of (E, ev) \<Rightarrow>
                size_warning E (src_path ev)
                @ [FlashWindow, Print (bright_time E @ distinguished_message E ev),
                   Print (no_longer_line E ev)]))"
proof (intro conjI impI)
  assume a: "1 < n \<and> n \<le> 9 \<and> q_cnt_field s = n \<and> length run = nat n
      \<and> (\<forall>(E, ev) \<in> set run.
            str_in ''.xdrx'' (src_path ev)
            \<and> \<not> str_in (os_getlogin E) (str_lower E (src_path ev)))
      \<and> distinct (map (\<lambda>(E, ev). src_path ev) run)
      \<and> (\<forall>(E, ev) \<in> set run. src_path ev \<notin> set (recent_events s))"
  have step: "\<And>E s ev. str_in ''.xdrx'' (src_path ev) \<Longrightarrow> src_path ev \<notin> set (recent_events s) \<Longrightarrow>
      q_cnt_field (on_created E s ev) = q_cnt_field s - 1
      \<and> recent_events (on_created E s ev)
          = deque_append recent_maxlen (recent_events s) (src_path ev)
      \<and> console (on_created E s ev)
          = console s @ (\<lambda>E ev. []) E ev @ render_effects E ev (q_cnt_field s)"
    using on_created_eligible by simp
  have g: "q_cnt_field (handle_all on_created s run) = 0
        \<and> console (handle_all on_created s run)
            = console s
              @ concat (map (\<lambda>(E, ev). (\<lambda>E ev. []) E ev
                                       @ [Print (bright_time E @ normal_message E ev)])
                          (butlast run))
              @ (case last run of (E, ev) \<Rightarrow>
                   (\<lambda>E ev. []) E ev
                   @ [FlashWindow, Print (bright_time E @ distinguished_message E ev),
                      Print (no_longer_line E ev)])"
    using a
    by (intro countdown_generic [where ok = "\<lambda>E ev. str_in ''.xdrx'' (src_path ev)"
          and cnt = q_cnt_field and h = on_created and pre = "\<lambda>E ev. []" and c = n, OF step])
      simp_all
  have m: "concat (map (\<lambda>(E, ev). [Print (bright_time E @ normal_message E ev)]) (butlast run))
             = map (\<lambda>(E, ev). Print (bright_time E @ normal_message E ev)) (butlast run)"
    by (rule concat_singletons)
  show "q_cnt_field (handle_all on_created s run) = 0"
    using g by simp
  show "v_cnt_field (handle_all on_created s run) = v_cnt_field s"
    by (rule other_counter_kept_all)
  show "console (handle_all on_created s run)
         = console s
           @ map (\<lambda>(E, ev). Print (bright_time E @ normal_message E ev)) (butlast run)
           @ (case last run of (E, ev) \<Rightarrow>
                [FlashWindow, Print (bright_time E @ distinguished_message E ev),
                 Print (no_longer_line E ev)])"
    using g m by simp
next
  assume a: "1 < n \<and> n \<le> 9 \<and> v_cnt_field s = n \<and> length run = nat n
      \<and> (\<forall>(E, ev) \<in> set run.
            (str_in ''.eds'' (src_path ev) \<and> accepted E (src_path ev))
            \<and> \<not> str_in (os_getlogin E) (str_lower E (src_path ev)))
      \<and> distinct (map (\<lambda>(E, ev). src_path ev) run)
      \<and> (\<forall>(E, ev) \<in> set run. src_path ev \<notin> set (recent_events s))"
  have step: "\<And>E s ev. str_in ''.eds'' (src_path ev) \<and> accepted E (src_path ev)
      \<Longrightarrow> src_path ev \<notin> set (recent_events s) \<Longrightarrow>
      v_cnt_field (on_modified E s ev) = v_cnt_field s - 1
      \<and> recent_events (on_modified E s ev)
          = deque_append recent_maxlen (recent_events s) (src_path ev)
      \<and> console (on_modified E s ev)
          = console s @ (\<lambda>E ev. size_warning E (src_path ev)) E ev
            @ render_effects E ev (v_cnt_field s)"
    using on_modified_eligible by simp
  have g: "v_cnt_field (handle_all on_modified s run) = 0
        \<and> console (handle_all on_modified s run)
            = console s
              @ concat (map (\<lambda>(E, ev). (\<lambda>E ev. size_warning E (src_path ev)) E ev
                                       @ [Print (bright_time E @ normal_message E ev)])
                          (butlast run))
              @ (case last run of (E, ev) \<Rightarrow>
                   (\<lambda>E ev. size_warning E (src_path ev)) E ev
                   @ [FlashWindow, Print (bright_time E @ distinguished_message E ev),
                      Print (no_longer_line E ev)])"
    using a
    by (intro countdown_generic [where
          ok = "\<lambda>E ev. str_in ''.eds'' (src_path ev) \<and> accepted E (src_path ev)"
          and cnt = v_cnt_field and h = on_modified
          and pre = "\<lambda>E ev. size_warning E (src_path ev)" and c = n, OF step])
      simp_all
  show "v_cnt_field (handle_all on_modified s run) = 0"
    using g by simp
  show "q_cnt_field (handle_all on_modified s run) = q_cnt_field s"
    by (rule other_counter_kept_all)
  show "console (handle_all on_modified s run)
         = console s
           @ concat (map (\<lambda>(E, ev). size_warning E (src_path ev)
                                    @ [Print (bright_time E @ normal_message E ev)])
                       (butlast run))
           @ (case last run of (E, ev) \<Rightarrow>
                size_warning E (src_path ev)
                @ [FlashWindow, Print (bright_time E @ distinguished_message E ev),
                   Print (no_longer_line E ev)])"
    using g by simp
qed

lemma demo_lower:
  "str_lower demo_env = latin1_lower" "str_lower demo_env_Jon = latin1_lower"
  "str_lower demo_env_accent = latin1_lower"
  "os_getlogin demo_env = ''jon''" "os_getlogin demo_env_Jon = ''Jon''"
  "os_getlogin demo_env_accent = [CHR 0xE9]"
  by (simp_all add: demo_env_def demo_env_Jon_def demo_env_accent_def)

lemmas latin1_lower_eval = latin1_lower_def latin1_upper_def latin1_lowered_def

theorem countdown_reaches_zero_witness:
  "(1::int) < 3 \<and> (3::int) \<le> 9
   \<and> q_cnt_field (q_cnt_setter LabHandler_init 3) = 3 \<and> length demo_created_run = nat 3
   \<and> q_cnt_field (handle_all on_created (q_cnt_setter LabHandler_init 3) demo_created_run) = 0
   \<and> console (handle_all on_created (q_cnt_setter LabHandler_init 3) demo_created_run)
       = [Print (bright_time demo_env @ normal_message demo_env (demo_event Created ''a.xdrx'')),
          Print (bright_time demo_env @ normal_message demo_env (demo_event Created ''b.xdrx'')),
          FlashWindow,
          Print (bright_time demo_env @ distinguished_message demo_env (demo_event Created ''c.xdrx'')),
          Print (no_longer_line demo_env (demo_event Created ''c.xdrx''))]
   \<and> (1::int) < 2 \<and> (2::int) \<le> 9
   \<and> v_cnt_field (v_cnt_setter LabHandler_init 2) = 2 \<and> length demo_modified_run = nat 2
   \<and> v_cnt_field (handle_all on_modified (v_cnt_setter LabHandler_init 2) demo_modified_run) = 0
   \<and> console (handle_all on_modified (v_cnt_setter LabHandler_init 2) demo_modified_run)
       = [Print (bright_time demo_env @ normal_message demo_env (demo_event Modified ''big.eds''))]
         @ size_warning demo_env ''gone.eds''
         @ [FlashWindow,
            Print (bright_time demo_env @ distinguished_message demo_env (demo_event Modified ''gone.eds'')),
            Print (no_longer_line demo_env (demo_event Modified ''gone.eds''))]"
proof -
  let ?sq = "q_cnt_setter LabHandler_init 3"
  let ?sv = "v_cnt_setter LabHandler_init 2"
  have sq: "q_cnt_field ?sq = 3" "console ?sq = []" "recent_events ?sq = [''g'', ''h'', ''i'']"
    by (simp_all add: q_cnt_setter_def LabHandler_init_def)
  have sv: "v_cnt_field ?sv = 2" "console ?sv = []" "recent_events ?sv = [''g'', ''h'', ''i'']"
    by (simp_all add: v_cnt_setter_def LabHandler_init_def)
  have lb: "length demo_created_run = nat 3"
    by (simp add: demo_created_run_def demo_three_def)
  have la: "length demo_modified_run = nat 2"
    by (simp add: demo_modified_run_def)
  have eb: "\<forall>(E, ev) \<in> set demo_created_run.
              str_in ''.xdrx'' (src_path ev)
              \<and> \<not> str_in (os_getlogin E) (str_lower E (src_path ev))"
    by (simp add: demo_created_run_def demo_three_def demo_event_def demo_lower latin1_lower_eval)
  have db: "distinct (map (\<lambda>(E, ev). src_path ev) demo_created_run)"
    by (simp add: demo_created_run_def demo_three_def demo_event_def)
  have fb: "\<forall>(E, ev) \<in> set demo_created_run. src_path ev \<notin> set (recent_events ?sq)"
    by (simp add: sq demo_created_run_def demo_three_def demo_event_def)
  have acc: "accepted demo_env ''big.eds''" "accepted demo_env ''gone.eds''"
    "size_warning demo_env ''big.eds'' = []"
    by (simp_all add: accepted_def size_warning_def demo_env_def)
  have ea: "\<forall>(E, ev) \<in> set demo_modified_run.
              (str_in ''.eds'' (src_path ev) \<and> accepted E (src_path ev))
              \<and> \<not> str_in (os_getlogin E) (str_lower E (src_path ev))"
    by (simp add: demo_modified_run_def demo_event_def demo_lower latin1_lower_eval acc)
  have da: "distinct (map (\<lambda>(E, ev). src_path ev) demo_modified_run)"
    by (simp add: demo_modified_run_def demo_event_def)
  have fa: "\<forall>(E, ev) \<in> set demo_modified_run. src_path ev \<notin> set (recent_events ?sv)"
    by (simp add: sv demo_modified_run_def demo_event_def)
  have bl: "butlast demo_created_run
              = [(demo_env, demo_event Created ''a.xdrx''), (demo_env, demo_event Created ''b.xdrx'')]"
    "last demo_created_run = (demo_env, demo_event Created ''c.xdrx'')"
    "butlast demo_modified_run = [(demo_env, demo_event Modified ''big.eds'')]"
    "last demo_modified_run = (demo_env, demo_event Modified ''gone.eds'')"
    by (simp_all add: demo_created_run_def demo_three_def demo_modified_run_def)
  have sp: "src_path (demo_event Modified ''big.eds'') = ''big.eds''"
    "src_path (demo_event Modified ''gone.eds'') = ''gone.eds''"
    by (simp_all add: demo_event_def)
  note tb = countdown_reaches_zero [of 3 ?sq demo_created_run, THEN conjunct1]
  note ta = countdown_reaches_zero [of 2 ?sv demo_modified_run, THEN conjunct2]
  have rb: "q_cnt_field (handle_all on_created ?sq demo_created_run) = 0
     \<and> v_cnt_field (handle_all on_created ?sq demo_created_run) = v_cnt_field ?sq
     \<and> console (handle_all on_created ?sq demo_created_run)
         = console ?sq
           @ map (\<lambda>(E, ev). Print (bright_time E @ normal_message E ev)) (butlast demo_created_run)
           @ (case last demo_created_run of (E, ev) \<Rightarrow>
                [FlashWindow, Print (bright_time E @ distinguished_message E ev),
                 Print (no_longer_line E ev)])"
    using tb sq(1) lb eb db fb by simp
  have ra: "v_cnt_field (handle_all on_modified ?sv demo_modified_run) = 0
     \<and> q_cnt_field (handle_all on_modified ?sv demo_modified_run) = q_cnt_field ?sv
     \<and> console (handle_all on_modified ?sv demo_modified_run)
         = console ?sv
           @ concat (map (\<lambda>(E, ev). size_warning E (src_path ev)
                                    @ [Print (bright_time E @ normal_message E ev)])
                       (butlast demo_modified_run))
           @ (case last demo_modified_run of (E, ev) \<Rightarrow>
                size_warning E (src_path ev)
                @ [FlashWindow, Print (bright_time E @ distinguished_message E ev),
                   Print (no_longer_line E ev)])"
    using ta sv(1) la ea da fa by simp
  have cb: "console (handle_all on_created ?sq demo_created_run)
       = [Print (bright_time demo_env @ normal_message demo_env (demo_event Created ''a.xdrx'')),
          Print (bright_time demo_env @ normal_message demo_env (demo_event Created ''b.xdrx'')),
          FlashWindow,
          Print (bright_time demo_env @ distinguished_message demo_env (demo_event Created ''c.xdrx'')),
          Print (no_longer_line demo_env (demo_event Created ''c.xdrx''))]"
    using rb by (simp add: bl sq)
  have ca: "console (handle_all on_modified ?sv demo_modified_run)
       = [Print (bright_time demo_env @ normal_message demo_env (demo_event Modified ''big.eds''))]
         @ size_warning demo_env ''gone.eds''
         @ [FlashWindow,
            Print (bright_time demo_env @ distinguished_message demo_env (demo_event Modified ''gone.eds'')),
            Print (no_longer_line demo_env (demo_event Modified ''gone.eds''))]"
    using ra by (simp add: bl sv sp acc)
  have zb: "q_cnt_field (handle_all on_created ?sq demo_created_run) = 0"
    using rb by (rule conjunct1)
  have za: "v_cnt_field (handle_all on_modified ?sv demo_modified_run) = 0"
    using ra by (rule conjunct1)
  have n: "(1::int) < 3" "(3::int) \<le> 9" "(1::int) < 2" "(2::int) \<le> 9"
    by simp_all
  show ?thesis
    using n sq(1) sv(1) lb la zb za cb ca by (intro conjI)
qed

lemma distinguished_lower_login:
  "str_lower E (os_getlogin E) = os_getlogin E
   \<Longrightarrow> distinguished E ev c
       = (str_in (str_lower E (os_getlogin E)) (str_lower E (src_path ev)) \<or> c = 1 \<or> c > 9)"
  by (simp add: distinguished_def)

text \<open>
  C2. The render is distinguished exactly when the login name, as \<^verbatim>\<open>os.getlogin()\<close>
  returns it, occurs in the lowered path, or the counter is 1 or above 9. Only the path
  is lowered: for the login name \<^verbatim>\<open>Jon\<close> and the path \<^verbatim>\<open>Jon_run7.xdrx\<close>, which contains
  the name letter for letter, the render at counter 0 is the normal one.
\<close>

theorem login_case_not_folded:
  "str_in (os_getlogin demo_env_Jon) (src_path (demo_event Created ''Jon_run7.xdrx''))
   \<and> str_in (str_lower demo_env_Jon (os_getlogin demo_env_Jon))
        (str_lower demo_env_Jon (src_path (demo_event Created ''Jon_run7.xdrx'')))
   \<and> \<not> distinguished demo_env_Jon (demo_event Created ''Jon_run7.xdrx'') 0
   \<and> console (on_created demo_env_Jon LabHandler_init (demo_event Created ''Jon_run7.xdrx''))
       = [Print (bright_time demo_env_Jon
                 @ normal_message demo_env_Jon (demo_event Created ''Jon_run7.xdrx''))]"
proof -
  have a: "str_in (os_getlogin demo_env_Jon) (src_path (demo_event Created ''Jon_run7.xdrx''))"
    by (simp add: demo_lower demo_event_def)
  have b: "str_in (str_lower demo_env_Jon (os_getlogin demo_env_Jon))
             (str_lower demo_env_Jon (src_path (demo_event Created ''Jon_run7.xdrx'')))"
    by (simp add: demo_lower demo_event_def latin1_lower_eval)
  have c: "\<not> distinguished demo_env_Jon (demo_event Created ''Jon_run7.xdrx'') 0"
    by (simp add: distinguished_def demo_lower demo_event_def latin1_lower_eval)
  have d: "str_in ''.xdrx'' (src_path (demo_event Created ''Jon_run7.xdrx''))"
    "src_path (demo_event Created ''Jon_run7.xdrx'') \<notin> set (recent_events LabHandler_init)"
    by (simp_all add: demo_event_def LabHandler_init_def)
  have q0: "q_cnt_field LabHandler_init = 0" "console LabHandler_init = []"
    by (simp_all add: LabHandler_init_def)
  have e: "console (on_created demo_env_Jon LabHandler_init (demo_event Created ''Jon_run7.xdrx''))
       = [Print (bright_time demo_env_Jon
                 @ normal_message demo_env_Jon (demo_event Created ''Jon_run7.xdrx''))]"
    using on_created_eligible(4) [OF d, of demo_env_Jon] c q0
    by (simp add: render_effects_def)
  show ?thesis
    using a b c e by (intro conjI)
qed

text \<open>
  C4, as stated, fails: for the login name \<^verbatim>\<open>jon\<close>, a created event for
  \<^verbatim>\<open>jon_run7.xdrx\<close> with the counter at 0 leaves the counter at -1.
\<close>

theorem login_render_floor_counterexample:
  "str_in (os_getlogin demo_env) (src_path (demo_event Created ''jon_run7.xdrx''))
   \<and> q_cnt_field LabHandler_init = 0
   \<and> \<not> 0 \<le> q_cnt_field (on_created demo_env LabHandler_init (demo_event Created ''jon_run7.xdrx''))"
proof -
  have a: "str_in (os_getlogin demo_env) (src_path (demo_event Created ''jon_run7.xdrx''))"
    by (simp add: demo_lower demo_event_def)
  have d: "str_in ''.xdrx'' (src_path (demo_event Created ''jon_run7.xdrx''))"
    "src_path (demo_event Created ''jon_run7.xdrx'') \<notin> set (recent_events LabHandler_init)"
    by (simp_all add: demo_event_def LabHandler_init_def)
  have q0: "q_cnt_field LabHandler_init = 0"
    by (simp add: LabHandler_init_def)
  have "q_cnt_field (on_created demo_env LabHandler_init (demo_event Created ''jon_run7.xdrx'')) = - 1"
    using on_created_eligible(1) [OF d, of demo_env] q0 by simp
  then show ?thesis
    using a q0 by simp
qed

text \<open>
  C4, amended. Let the login name be its own lower-case form and occur in the lowered
  path, that is, occur in the path in some letter case. Then the render of an eligible
  event for either source is distinguished whatever the stored counter is, and it lowers
  the stored counter by exactly one: a counter at 0 becomes -1.
\<close>

theorem login_render_distinguished:
  assumes "str_lower E (os_getlogin E) = os_getlogin E"
    and "str_in (str_lower E (os_getlogin E)) (str_lower E (src_path ev))"
    and "src_path ev \<notin> set (recent_events s)"
  shows "(str_in ''.xdrx'' (src_path ev) \<longrightarrow>
            q_cnt_field (on_created E s ev) = q_cnt_field s - 1
            \<and> (q_cnt_field s = 0 \<longrightarrow> q_cnt_field (on_created E s ev) = - 1)
            \<and> console (on_created E s ev)
                = console s
                  @ [FlashWindow, Print (bright_time E @ distinguished_message E ev)]
                  @ (if q_cnt_field s = 1 then [Print (no_longer_line E ev)] else []))
         \<and> (str_in ''.eds'' (src_path ev) \<and> accepted E (src_path ev) \<longrightarrow>
            v_cnt_field (on_modified E s ev) = v_cnt_field s - 1
            \<and> (v_cnt_field s = 0 \<longrightarrow> v_cnt_field (on_modified E s ev) = - 1)
            \<and> console (on_modified E s ev)
                = console s
                  @ size_warning E (src_path ev)
                  @ [FlashWindow, Print (bright_time E @ distinguished_message E ev)]
                  @ (if v_cnt_field s = 1 then [Print (no_longer_line E ev)] else []))"
proof -
  have d: "distinguished E ev c" for c
    using assms(1,2) by (simp add: distinguished_lower_login)
  have r: "render_effects E ev c
             = [FlashWindow, Print (bright_time E @ distinguished_message E ev)]
               @ (if c = 1 then [Print (no_longer_line E ev)] else [])" for c
    using d by (simp add: render_effects_def)
  show ?thesis
  proof (intro conjI impI)
    assume x: "str_in ''.xdrx'' (src_path ev)"
    note t = on_created_eligible [OF x assms(3), of E]
    show "q_cnt_field (on_created E s ev) = q_cnt_field s - 1"
      by (rule t(1))
    show "q_cnt_field (on_created E s ev) = - 1" if "q_cnt_field s = 0"
      using t(1) that by simp
    show "console (on_created E s ev)
                = console s
                  @ [FlashWindow, Print (bright_time E @ distinguished_message E ev)]
                  @ (if q_cnt_field s = 1 then [Print (no_longer_line E ev)] else [])"
      using t(4) r by simp
  next
    assume x: "str_in ''.eds'' (src_path ev) \<and> accepted E (src_path ev)"
    note t = on_modified_eligible [OF x assms(3)]
    show "v_cnt_field (on_modified E s ev) = v_cnt_field s - 1"
      by (rule t(1))
    show "v_cnt_field (on_modified E s ev) = - 1" if "v_cnt_field s = 0"
      using t(1) that by simp
    show "console (on_modified E s ev)
                = console s
                  @ size_warning E (src_path ev)
                  @ [FlashWindow, Print (bright_time E @ distinguished_message E ev)]
                  @ (if v_cnt_field s = 1 then [Print (no_longer_line E ev)] else [])"
      using t(4) r by simp
  qed
qed

theorem login_render_distinguished_witness:
  "str_lower demo_env_accent (os_getlogin demo_env_accent) = os_getlogin demo_env_accent
   \<and> str_in (str_lower demo_env_accent (os_getlogin demo_env_accent))
        (str_lower demo_env_accent (src_path (demo_event Created (CHR 0xC9 # ''_run7.xdrx''))))
   \<and> src_path (demo_event Created (CHR 0xC9 # ''_run7.xdrx'')) \<notin> set (recent_events LabHandler_init)
   \<and> str_in ''.xdrx'' (src_path (demo_event Created (CHR 0xC9 # ''_run7.xdrx'')))
   \<and> q_cnt_field LabHandler_init = 0
   \<and> q_cnt_field (on_created demo_env_accent LabHandler_init
                    (demo_event Created (CHR 0xC9 # ''_run7.xdrx''))) = - 1
   \<and> console (on_created demo_env_accent LabHandler_init
                (demo_event Created (CHR 0xC9 # ''_run7.xdrx'')))
       = [FlashWindow,
          Print (bright_time demo_env_accent
                 @ distinguished_message demo_env_accent
                     (demo_event Created (CHR 0xC9 # ''_run7.xdrx'')))]"
proof -
  let ?ev = "demo_event Created (CHR 0xC9 # ''_run7.xdrx'')"
  have a: "str_lower demo_env_accent (os_getlogin demo_env_accent) = os_getlogin demo_env_accent"
    by (simp add: demo_lower latin1_lower_eval)
  have b: "str_in (str_lower demo_env_accent (os_getlogin demo_env_accent))
             (str_lower demo_env_accent (src_path ?ev))"
    by (simp add: demo_lower demo_event_def latin1_lower_eval)
  have c: "src_path ?ev \<notin> set (recent_events LabHandler_init)"
    by (simp add: demo_event_def LabHandler_init_def)
  have x: "str_in ''.xdrx'' (src_path ?ev)"
    by (simp add: demo_event_def)
  have q0: "q_cnt_field LabHandler_init = 0" "console LabHandler_init = []"
    by (simp_all add: LabHandler_init_def)
  note t = login_render_distinguished [OF a b c, THEN conjunct1, rule_format, OF x]
  have t1: "q_cnt_field (on_created demo_env_accent LabHandler_init ?ev) = - 1"
    using t q0 by simp
  have t2: "console (on_created demo_env_accent LabHandler_init ?ev)
       = [FlashWindow,
          Print (bright_time demo_env_accent @ distinguished_message demo_env_accent ?ev)]"
    using t q0 by simp
  show ?thesis
    using a b c x q0(1) t1 t2 by (intro conjI)
qed

subsection \<open>The command line\<close>

lemma first_digit_skips:
  "\<forall>c \<in> set pre. \<not> str_isdigit E c \<Longrightarrow> str_isdigit E d
   \<Longrightarrow> first_digit E (pre @ d # rest) = int_of E d"
  by (induction pre) simp_all

lemma first_digit_none:
  "\<forall>c \<in> set inp. \<not> str_isdigit E c \<Longrightarrow> first_digit E inp = Inr 0"
  by (induction inp) simp_all

lemma setter_frames:
  "v_cnt_field (q_cnt_setter s x) = v_cnt_field s"
  "console (q_cnt_setter s x) = console s"
  "q_cnt_field (v_cnt_setter s x) = q_cnt_field s"
  "console (v_cnt_setter s x) = console s"
  by (simp_all add: q_cnt_setter_def v_cnt_setter_def)

lemma setter_values:
  "q_cnt_field (q_cnt_setter s x) = (if x = 0 then (if q_cnt_field s > 0 then 0 else 1337) else x)"
  "v_cnt_field (v_cnt_setter s x) = (if x = 0 then (if v_cnt_field s > 0 then 0 else 1337) else x)"
  by (simp_all add: q_cnt_setter_def v_cnt_setter_def)

lemma print_opt_simps:
  "q_cnt_field (print_opt x s) = q_cnt_field s"
  "v_cnt_field (print_opt x s) = v_cnt_field s"
  "console (print_opt x s) = console s @ [Print (case x of Some line \<Rightarrow> line | None \<Rightarrow> ''None'')]"
  by (simp_all add: print_opt_def print_simps)

lemma status_reads:
  "q_cnt E (print_opt x s) = q_cnt E s"
  "v_cnt E (print_opt x s) = v_cnt E s"
  "q_cnt E (v_cnt_setter s n) = q_cnt E s"
  "q_cnt E (print l s) = q_cnt E s"
  "v_cnt E (print l s) = v_cnt E s"
  by (simp_all add: q_cnt_def v_cnt_def print_opt_simps print_simps setter_frames)

lemma status_countdown:
  "1 \<le> n \<Longrightarrow> n \<le> 9 \<Longrightarrow> q_cnt_field s = n \<Longrightarrow>
     q_cnt E s = Some (ljust 19 CHR '' '' [] @ qiaxcel_str E @ '' Notifying in '' @ str_int n
                       @ '' runs time'')"
  "1 \<le> n \<Longrightarrow> n \<le> 9 \<Longrightarrow> v_cnt_field s = n \<Longrightarrow>
     v_cnt E s = Some (ljust 19 CHR '' '' [] @ viia7_str E @ '' Notifying in '' @ str_int n
                       @ '' runs time'')"
  by (simp_all add: q_cnt_def v_cnt_def notify_setting_def)

text \<open>The line as the loop handles it once the count is known.\<close>

lemma command_count:
  "first_digit E inp = Inr count \<Longrightarrow>
     snd (command E s inp) = None
     \<and> q_cnt_field (fst (command E s inp))
         = (if str_in ''q'' (str_lower E inp) then q_cnt_field (q_cnt_setter s count)
            else q_cnt_field s)
     \<and> v_cnt_field (fst (command E s inp))
         = (if str_in ''v'' (str_lower E inp) then v_cnt_field (v_cnt_setter s count)
            else v_cnt_field s)"
  by (simp add: command_def Let_def print_simps print_opt_simps setter_frames setter_values)

lemma command_raises:
  "first_digit E inp = Inl e \<Longrightarrow>
     snd (command E s inp) = Some e
     \<and> q_cnt_field (fst (command E s inp)) = q_cnt_field s
     \<and> v_cnt_field (fst (command E s inp)) = v_cnt_field s"
  by (simp add: command_def Let_def print_simps)

text \<open>
  C7. A line that contains both letters, in either case, and whose first digit converts
  to \<open>n\<close> from 1 to 9 (as \<^verbatim>\<open>qv3\<close>) sets both stored counters to \<open>n\<close> without toggling, and
  both status reads then say "Notifying in \<open>n\<close> runs time". The count is taken from the
  first character of the line that \<^verbatim>\<open>isdigit\<close> accepts; what follows it is not looked at.
  A line with no such character counts as 0: each source named in it is toggled. When
  \<^verbatim>\<open>int\<close> rejects that first character, the exception leaves the loop and neither counter
  changes.
\<close>

theorem command_line_rules:
  "(str_in ''q'' (str_lower E inp) \<and> str_in ''v'' (str_lower E inp)
      \<and> first_digit E inp = Inr n \<and> 1 \<le> n \<and> n \<le> 9 \<longrightarrow>
     snd (command E s inp) = None
     \<and> q_cnt_field (fst (command E s inp)) = n
     \<and> v_cnt_field (fst (command E s inp)) = n
     \<and> q_cnt E (fst (command E s inp))
         = Some (ljust 19 CHR '' '' [] @ qiaxcel_str E @ '' Notifying in '' @ str_int n @ '' runs time'')
     \<and> v_cnt E (fst (command E s inp))
         = Some (ljust 19 CHR '' '' [] @ viia7_str E @ '' Notifying in '' @ str_int n @ '' runs time''))
   \<and> ((\<forall>c \<in> set pre. \<not> str_isdigit E c) \<and> str_isdigit E d \<longrightarrow>
        first_digit E (pre @ d # rest) = int_of E d)
   \<and> ((\<forall>c \<in> set inp. \<not> str_isdigit E c) \<longrightarrow>
        first_digit E inp = Inr 0
        \<and> snd (command E s inp) = None
        \<and> (str_in ''q'' (str_lower E inp) \<longrightarrow>
             q_cnt_field (fst (command E s inp)) = (if q_cnt_field s > 0 then 0 else 1337))
        \<and> (str_in ''v'' (str_lower E inp) \<longrightarrow>
             v_cnt_field (fst (command E s inp)) = (if v_cnt_field s > 0 then 0 else 1337)))
   \<and> (first_digit E inp = Inl e \<longrightarrow>
        snd (command E s inp) = Some e
        \<and> q_cnt_field (fst (command E s inp)) = q_cnt_field s
        \<and> v_cnt_field (fst (command E s inp)) = v_cnt_field s)"
proof (intro conjI impI)
  assume a: "str_in ''q'' (str_lower E inp) \<and> str_in ''v'' (str_lower E inp)
      \<and> first_digit E inp = Inr n \<and> 1 \<le> n \<and> n \<le> 9"
  then have f: "first_digit E inp = Inr n" and n: "1 \<le> n" "n \<le> 9"
    by simp_all
  note t = command_count [OF f, of s]
  show none: "snd (command E s inp) = None"
    using t by simp
  show q: "q_cnt_field (fst (command E s inp)) = n"
    using t a by (simp add: setter_values)
  show v: "v_cnt_field (fst (command E s inp)) = n"
    using t a by (simp add: setter_values)
  show "q_cnt E (fst (command E s inp))
         = Some (ljust 19 CHR '' '' [] @ qiaxcel_str E @ '' Notifying in '' @ str_int n @ '' runs time'')"
    using n q by (rule status_countdown(1))
  show "v_cnt E (fst (command E s inp))
         = Some (ljust 19 CHR '' '' [] @ viia7_str E @ '' Notifying in '' @ str_int n @ '' runs time'')"
    using n v by (rule status_countdown(2))
next
  assume "(\<forall>c \<in> set pre. \<not> str_isdigit E c) \<and> str_isdigit E d"
  then show "first_digit E (pre @ d # rest) = int_of E d"
    by (simp add: first_digit_skips)
next
  assume n: "\<forall>c \<in> set inp. \<not> str_isdigit E c"
  then show z: "first_digit E inp = Inr 0"
    by (rule first_digit_none)
  note t = command_count [OF z, of s]
  show "snd (command E s inp) = None"
    using t by simp
  show "q_cnt_field (fst (command E s inp)) = (if q_cnt_field s > 0 then 0 else 1337)"
    if "str_in ''q'' (str_lower E inp)"
    using that t by (simp add: setter_values)
  show "v_cnt_field (fst (command E s inp)) = (if v_cnt_field s > 0 then 0 else 1337)"
    if "str_in ''v'' (str_lower E inp)"
    using that t by (simp add: setter_values)
next
  assume e: "first_digit E inp = Inl e"
  note t = command_raises [OF e, of s]
  show "snd (command E s inp) = Some e"
    using t by simp
  show "q_cnt_field (fst (command E s inp)) = q_cnt_field s"
    using t by simp
  show "v_cnt_field (fst (command E s inp)) = v_cnt_field s"
    using t by simp
qed

lemma demo_digits:
  "str_isdigit demo_env = latin1_isdigit" "int_of demo_env = latin1_int"
  by (simp_all add: demo_env_def)

theorem command_line_rules_witness:
  "str_in ''q'' (str_lower demo_env ''qv3'') \<and> str_in ''v'' (str_lower demo_env ''qv3'')
   \<and> first_digit demo_env ''qv3'' = Inr 3
   \<and> snd (command demo_env LabHandler_init ''qv3'') = None
   \<and> q_cnt_field (fst (command demo_env LabHandler_init ''qv3'')) = 3
   \<and> v_cnt_field (fst (command demo_env LabHandler_init ''qv3'')) = 3
   \<and> q_cnt demo_env (fst (command demo_env LabHandler_init ''qv3''))
       = Some (replicate 19 CHR '' '' @ qiaxcel_str demo_env @ '' Notifying in 3 runs time'')
   \<and> v_cnt demo_env (fst (command demo_env LabHandler_init ''qv3''))
       = Some (replicate 19 CHR '' '' @ viia7_str demo_env @ '' Notifying in 3 runs time'')
   \<and> str_isdigit demo_env CHR ''5'' \<and> first_digit demo_env (''q'' @ CHR ''5'' # ''4'') = Inr 5
   \<and> first_digit demo_env ''Q'' = Inr 0 \<and> str_in ''q'' (str_lower demo_env ''Q'')
   \<and> q_cnt_field (fst (command demo_env LabHandler_init ''Q'')) = 1337
   \<and> first_digit demo_env (''q'' @ [CHR 0xB2]) = Inl ValueError
   \<and> snd (command demo_env LabHandler_init (''q'' @ [CHR 0xB2])) = Some ValueError
   \<and> q_cnt_field (fst (command demo_env LabHandler_init (''q'' @ [CHR 0xB2]))) = 0"
proof -
  have a: "str_in ''q'' (str_lower demo_env ''qv3'')" "str_in ''v'' (str_lower demo_env ''qv3'')"
    by (simp_all add: demo_lower latin1_lower_eval)
  have b: "first_digit demo_env ''qv3'' = Inr 3"
    by (simp add: demo_digits latin1_isdigit_def latin1_int_def)
  have c: "(1::int) \<le> 3" "(3::int) \<le> 9"
    by simp_all
  have d: "\<forall>c \<in> set ''q''. \<not> str_isdigit demo_env c" "str_isdigit demo_env CHR ''5''"
    "int_of demo_env CHR ''5'' = Inr 5"
    by (simp_all add: demo_digits latin1_isdigit_def latin1_int_def)
  have e: "\<forall>c \<in> set ''Q''. \<not> str_isdigit demo_env c" "str_in ''q'' (str_lower demo_env ''Q'')"
    by (simp_all add: demo_digits latin1_isdigit_def demo_lower latin1_lower_eval)
  have f: "first_digit demo_env (''q'' @ [CHR 0xB2]) = Inl ValueError"
    by (simp add: demo_digits latin1_isdigit_def latin1_int_def)
  have q0: "q_cnt_field LabHandler_init = 0"
    by (simp add: LabHandler_init_def)
  have s3: "str_int 3 = ''3''"
    by (simp add: str_int_def)
  note t1 = command_line_rules
    [of demo_env "''qv3''" 3 LabHandler_init "''q''" "CHR ''5''" "''4''" ValueError]
  note t2 = command_line_rules
    [of demo_env "''Q''" 3 LabHandler_init "''q''" "CHR ''5''" "''4''" ValueError]
  note t3 = command_line_rules
    [of demo_env "''q'' @ [CHR 0xB2]" 3 LabHandler_init "''q''" "CHR ''5''" "''4''" ValueError]
  have r1: "snd (command demo_env LabHandler_init ''qv3'') = None
     \<and> q_cnt_field (fst (command demo_env LabHandler_init ''qv3'')) = 3
     \<and> v_cnt_field (fst (command demo_env LabHandler_init ''qv3'')) = 3
     \<and> q_cnt demo_env (fst (command demo_env LabHandler_init ''qv3''))
         = Some (ljust 19 CHR '' '' [] @ qiaxcel_str demo_env @ '' Notifying in '' @ str_int 3
                 @ '' runs time'')
     \<and> v_cnt demo_env (fst (command demo_env LabHandler_init ''qv3''))
         = Some (ljust 19 CHR '' '' [] @ viia7_str demo_env @ '' Notifying in '' @ str_int 3
                 @ '' runs time'')"
    using t1 a b c by blast
  have r2: "first_digit demo_env (''q'' @ CHR ''5'' # ''4'') = int_of demo_env CHR ''5''"
    using t1 d by blast
  have r3: "first_digit demo_env ''Q'' = Inr 0
      \<and> q_cnt_field (fst (command demo_env LabHandler_init ''Q''))
          = (if q_cnt_field LabHandler_init > 0 then 0 else 1337)"
    using t2 e by blast
  have r4: "snd (command demo_env LabHandler_init (''q'' @ [CHR 0xB2])) = Some ValueError
      \<and> q_cnt_field (fst (command demo_env LabHandler_init (''q'' @ [CHR 0xB2])))
          = q_cnt_field LabHandler_init"
    using t3 f by blast
  show ?thesis
    using a b d(2,3) e(2) f r1 r2 r3 r4 q0 by (simp add: s3 ljust_def)
qed

subsection \<open>Resolving the month directories\<close>

lemma strftime_b_Sep: "(strftime_b d = ''Sep'') = (month d = 9)"
proof (cases "1 \<le> month d \<and> month d \<le> 12")
  case True
  then have "month d \<in> {1, 2, 3, 4, 5, 6, 7, 8, 9, 10, 11, 12}"
    by (simp only: insert_iff empty_iff) arith
  then show ?thesis
    by (auto simp add: strftime_b_def)
next
  case False
  then show ?thesis
    by (auto simp add: strftime_b_def)
qed

lemma last_month_fields:
  "month (last_month E) = (if 1 < month (today E) then month (today E) - 1 else 12)"
  "year (last_month E) = (if 1 < month (today E) then year (today E) else year (today E) - 1)"
  by (simp_all add: last_month_def minus_one_day_def)

lemma viia7_path_last:
  "viia7_path E True =
     (let d = last_month E;
          p1 = build_path (strftime_b d) (strftime_Y d);
          p2 = build_path (strftime_B d) (strftime_Y d);
          p3 = build_path ''Sept'' (strftime_Y d)
      in if os_path_isdir E p1 then ([], Inr p1)
         else if os_path_isdir E p2 then ([], Inr p2)
         else if month d = 9 \<and> os_path_isdir E p3 then ([], Inr p3)
         else ([Print ''Cant find last month's Viia7 Path''], Inl FileNotFoundError))"
  by (simp add: viia7_path_def Let_def last_month_def strftime_b_Sep)

lemma viia7_path_current:
  "viia7_path E False =
     (let d = today E;
          p1 = build_path (strftime_b d) (strftime_Y d);
          p2 = build_path (strftime_B d) (strftime_Y d);
          p3 = build_path ''Sept'' (strftime_Y d)
      in if os_path_isdir E p1 then ([], Inr p1)
         else if os_path_isdir E p2 then ([], Inr p2)
         else if month d = 9 \<and> os_path_isdir E p3 then ([], Inr p3)
         else ([Makedirs p1], Inr p1))"
  by (simp add: viia7_path_def Let_def strftime_b_Sep)

text \<open>
  C9. For the previous month \<open>viia7_path\<close> returns the directory named with the abbreviated
  month if it exists, else the one named with the full month, else, in September only, the
  one named \<^verbatim>\<open>Sept\<close>. When none exists it makes no directory: it prints its message and
  raises \<^verbatim>\<open>FileNotFoundError\<close>. For the current month, when none exists, it makes the
  directory named with the abbreviated month and returns it. The previous month is the one
  before today's, December of the year before in January.
\<close>

theorem previous_month_never_created:
  "(os_path_isdir E (build_path (strftime_b (last_month E)) (strftime_Y (last_month E))) \<longrightarrow>
      viia7_path E True
        = ([], Inr (build_path (strftime_b (last_month E)) (strftime_Y (last_month E)))))
   \<and> (\<not> os_path_isdir E (build_path (strftime_b (last_month E)) (strftime_Y (last_month E)))
      \<and> os_path_isdir E (build_path (strftime_B (last_month E)) (strftime_Y (last_month E))) \<longrightarrow>
      viia7_path E True
        = ([], Inr (build_path (strftime_B (last_month E)) (strftime_Y (last_month E)))))
   \<and> (\<not> os_path_isdir E (build_path (strftime_b (last_month E)) (strftime_Y (last_month E)))
      \<and> \<not> os_path_isdir E (build_path (strftime_B (last_month E)) (strftime_Y (last_month E)))
      \<and> month (last_month E) = 9
      \<and> os_path_isdir E (build_path ''Sept'' (strftime_Y (last_month E))) \<longrightarrow>
      viia7_path E True = ([], Inr (build_path ''Sept'' (strftime_Y (last_month E)))))
   \<and> (\<not> os_path_isdir E (build_path (strftime_b (last_month E)) (strftime_Y (last_month E)))
      \<and> \<not> os_path_isdir E (build_path (strftime_B (last_month E)) (strftime_Y (last_month E)))
      \<and> \<not> (month (last_month E) = 9
             \<and> os_path_isdir E (build_path ''Sept'' (strftime_Y (last_month E)))) \<longrightarrow>
      viia7_path E True = ([Print ''Cant find last month's Viia7 Path''], Inl FileNotFoundError))
   \<and> (\<forall>p. Makedirs p \<notin> set (fst (viia7_path E True)))
   \<and> (\<not> os_path_isdir E (build_path (strftime_b (today E)) (strftime_Y (today E)))
      \<and> \<not> os_path_isdir E (build_path (strftime_B (today E)) (strftime_Y (today E)))
      \<and> \<not> (month (today E) = 9
             \<and> os_path_isdir E (build_path ''Sept'' (strftime_Y (today E)))) \<longrightarrow>
      viia7_path E False
        = ([Makedirs (build_path (strftime_b (today E)) (strftime_Y (today E)))],
           Inr (build_path (strftime_b (today E)) (strftime_Y (today E)))))
   \<and> month (last_month E) = (if 1 < month (today E) then month (today E) - 1 else 12)
   \<and> year (last_month E) = (if 1 < month (today E) then year (today E) else year (today E) - 1)"
  by (simp add: viia7_path_last viia7_path_current Let_def last_month_fields)


lemma demo_dates:
  "last_month demo_env = \<lparr>year = 2026, month = 9, day = 30\<rparr>"
  "last_month demo_env_Sept = \<lparr>year = 2026, month = 9, day = 30\<rparr>"
  "today demo_env = \<lparr>year = 2026, month = 10, day = 15\<rparr>"
  by (simp_all add: last_month_def minus_one_day_def demo_env_def demo_env_Sept_def
      days_in_month_def)

lemma demo_strftime:
  "strftime_b \<lparr>year = 2026, month = 9, day = 30\<rparr> = ''Sep''"
  "strftime_B \<lparr>year = 2026, month = 9, day = 30\<rparr> = ''September''"
  "strftime_Y \<lparr>year = 2026, month = 9, day = 30\<rparr> = ''2026''"
  "strftime_b \<lparr>year = 2026, month = 10, day = 15\<rparr> = ''Oct''"
  "strftime_B \<lparr>year = 2026, month = 10, day = 15\<rparr> = ''October''"
  "strftime_Y \<lparr>year = 2026, month = 10, day = 15\<rparr> = ''2026''"
  by (simp_all add: strftime_b_def strftime_B_def strftime_Y_def)

lemma demo_isdir:
  "os_path_isdir demo_env p = False"
  "os_path_isdir demo_env_Sept p = (p = build_path ''Sept'' ''2026'')"
  by (simp_all add: demo_env_def demo_env_Sept_def)

lemma demo_paths_differ:
  "build_path ''Sep'' ''2026'' \<noteq> build_path ''Sept'' ''2026''"
  "build_path ''September'' ''2026'' \<noteq> build_path ''Sept'' ''2026''"
  by (simp_all add: build_path_def)

theorem previous_month_never_created_witness:
  "last_month demo_env = \<lparr>year = 2026, month = 9, day = 30\<rparr>
   \<and> viia7_path demo_env True
       = ([Print ''Cant find last month's Viia7 Path''], Inl FileNotFoundError)
   \<and> viia7_path demo_env False
       = ([Makedirs (build_path ''Oct'' ''2026'')], Inr (build_path ''Oct'' ''2026''))
   \<and> os_path_isdir demo_env_Sept (build_path ''Sept'' ''2026'')
   \<and> viia7_path demo_env_Sept True = ([], Inr (build_path ''Sept'' ''2026''))"
proof -
  have r1: "viia7_path demo_env True
       = ([Print ''Cant find last month's Viia7 Path''], Inl FileNotFoundError)"
    using previous_month_never_created [of demo_env]
    by (simp add: demo_dates demo_strftime demo_isdir)
  have r2: "viia7_path demo_env False
       = ([Makedirs (build_path ''Oct'' ''2026'')], Inr (build_path ''Oct'' ''2026''))"
    using previous_month_never_created [of demo_env]
    by (simp add: demo_dates demo_strftime demo_isdir)
  have r3: "viia7_path demo_env_Sept True = ([], Inr (build_path ''Sept'' ''2026''))"
    using previous_month_never_created [of demo_env_Sept]
    by (simp add: demo_dates demo_strftime demo_isdir demo_paths_differ)
  show ?thesis
    using r1 r2 r3 by (simp add: demo_dates demo_isdir)
qed

end
